theory Spec2Isabelle
  imports Complex_Main "HOL-Library.AList" "HOL-Library.Sublist"
begin

section \<open>Python values and built-ins used by the sources\<close>

text \<open>
  Strings are ASCII character lists. Exceptions are values of \<open>py_error\<close>; a call
  that can raise returns \<open>py_error + 'a\<close>, with \<open>Inl\<close> for the exception.
\<close>

datatype py_error =
  ValueError | TypeError | AttributeError | KeyError | NameError
  | FileNotFoundError | JSONDecodeError | OSError | RedisError
  | HTTPException nat

text \<open>
  A Python float is a finite value, an infinity or NaN. Only comparisons are used by the
  sources modelled here; they follow IEEE 754: every comparison with NaN is false.
\<close>

datatype pyfloat = Fin real | PosInf | NegInf | NaN

fun float_ge :: "pyfloat \<Rightarrow> pyfloat \<Rightarrow> bool" where
  "float_ge NaN _ = False"
| "float_ge _ NaN = False"
| "float_ge PosInf _ = True"
| "float_ge _ NegInf = True"
| "float_ge NegInf _ = False"
| "float_ge _ PosInf = False"
| "float_ge (Fin a) (Fin b) = (b \<le> a)"

fun float_lt :: "pyfloat \<Rightarrow> pyfloat \<Rightarrow> bool" where
  "float_lt NaN _ = False"
| "float_lt _ NaN = False"
| "float_lt PosInf _ = False"
| "float_lt _ NegInf = False"
| "float_lt NegInf _ = True"
| "float_lt _ PosInf = True"
| "float_lt (Fin a) (Fin b) = (a < b)"

text \<open>
  \<open>str.upper()\<close> on ASCII text: the letters a to z are mapped to A to Z.
\<close>

definition upper_char :: "char \<Rightarrow> char" where
  "upper_char c =
     (case map_of (zip ''abcdefghijklmnopqrstuvwxyz'' ''ABCDEFGHIJKLMNOPQRSTUVWXYZ'') c of
        None \<Rightarrow> c
      | Some u \<Rightarrow> u)"

definition upper :: "string \<Rightarrow> string" where
  "upper s = map upper_char s"

text \<open>
  \<open>int(s)\<close> on a \<open>str\<close>, base 10: surrounding white space is stripped, one sign is
  allowed, then decimal digits, where single underscores may stand between digits.
  \<open>None\<close> is the \<open>ValueError\<close> that \<open>int\<close> raises on anything else. The bound of
  the interpreter on the number of digits is left out.
\<close>

definition is_space :: "char \<Rightarrow> bool" where
  "is_space c = ((of_char c :: nat) \<in> {9, 10, 11, 12, 13, 32})"

definition is_digit :: "char \<Rightarrow> bool" where
  "is_digit c = (48 \<le> (of_char c :: nat) \<and> (of_char c :: nat) \<le> 57)"

definition digit_val :: "char \<Rightarrow> nat" where
  "digit_val c = (of_char c :: nat) - 48"

definition strip :: "string \<Rightarrow> string" where
  "strip s = rev (dropWhile is_space (rev (dropWhile is_space s)))"

fun int_digits :: "nat \<Rightarrow> string \<Rightarrow> nat option" where
  "int_digits acc [] = Some acc"
| "int_digits acc (c # cs) =
     (if is_digit c then int_digits (acc * 10 + digit_val c) cs
      else if c = CHR ''_'' then
        (case cs of
           [] \<Rightarrow> None
         | d # ds \<Rightarrow> if is_digit d then int_digits acc cs else None)
      else None)"

definition int_body :: "string \<Rightarrow> nat option" where
  "int_body b =
     (case b of
        [] \<Rightarrow> None
      | c # cs \<Rightarrow> if is_digit c then int_digits 0 b else None)"

definition py_int :: "string \<Rightarrow> int option" where
  "py_int s =
     (case strip s of
        [] \<Rightarrow> None
      | c # cs \<Rightarrow>
          if c = CHR ''-'' then map_option (\<lambda>n. - int n) (int_body cs)
          else if c = CHR ''+'' then map_option int (int_body cs)
          else map_option int (int_body (c # cs)))"

text \<open>
  \<open>s.replace(old, new)\<close>: the occurrences of \<open>old\<close> are found from left to right
  without overlap. For an empty \<open>old\<close> Python puts \<open>new\<close> before every character
  and at the end.
\<close>

function replace :: "string \<Rightarrow> string \<Rightarrow> string \<Rightarrow> string" where
  "replace old new s =
     (if old = [] then
        (case s of [] \<Rightarrow> new | c # cs \<Rightarrow> new @ c # replace old new cs)
      else if prefix old s then new @ replace old new (drop (length old) s)
      else (case s of [] \<Rightarrow> [] | c # cs \<Rightarrow> c # replace old new cs))"
  by pat_completeness auto
termination
  by (relation "measure (\<lambda>(old, new, s). length s)") (auto simp: prefix_def)

declare replace.simps [simp del]

section \<open>db\_config.py: the connection policy\<close>

text \<open>
  A dictionary is an association list in insertion order, each key once; assigning a key
  is \<open>AList.update\<close>, which replaces the value of a key that is there and appends a
  new key, and a lookup is \<open>map_of\<close>.
\<close>

datatype cval = CNone | CBool bool | CInt int | CStr string | CDict "(string \<times> cval) list"

type_synonym config = "(string \<times> cval) list"

type_synonym environ = "string \<Rightarrow> string option"

definition DEFAULT_SETTINGS :: config where
  "DEFAULT_SETTINGS =
     [(''host'', CStr ''localhost''),
      (''port'', CInt 6380),
      (''db'', CInt 0),
      (''password'', CNone),
      (''socket_timeout'', CInt 5),
      (''socket_connect_timeout'', CInt 5),
      (''socket_keepalive'', CBool True),
      (''socket_keepalive_options'', CDict []),
      (''decode_responses'', CBool True),
      (''max_connections'', CInt 10)]"

text \<open>\<open>os.getenv(name, default)\<close>.\<close>

definition getenv_or :: "environ \<Rightarrow> string \<Rightarrow> string \<Rightarrow> string" where
  "getenv_or env name dflt = (case env name of None \<Rightarrow> dflt | Some v \<Rightarrow> v)"

text \<open>\<open>int(...) or None\<close>: zero is falsy.\<close>

definition or_None :: "int \<Rightarrow> cval option" where
  "or_None n = (if n = 0 then None else Some (CInt n))"

text \<open>
  The dictionary \<open>env_overrides\<close> of \<open>get_connection_params\<close>; \<open>None\<close> is Python's
  \<open>None\<close>. Building it raises \<open>ValueError\<close> when \<open>REDIS_PORT\<close> or \<open>REDIS_DB\<close> is
  set to text that \<open>int\<close> rejects.
\<close>

definition env_overrides :: "environ \<Rightarrow> py_error + (string \<times> cval option) list" where
  "env_overrides env =
     (case py_int (getenv_or env ''REDIS_PORT'' ''0'') of
        None \<Rightarrow> Inl ValueError
      | Some p \<Rightarrow>
          (case py_int (getenv_or env ''REDIS_DB'' ''0'') of
             None \<Rightarrow> Inl ValueError
           | Some d \<Rightarrow>
               Inr [(''host'', map_option CStr (env ''REDIS_HOST'')),
                    (''port'', or_None p),
                    (''db'', or_None d),
                    (''password'', map_option CStr (env ''REDIS_PASSWORD''))]))"

definition apply_env :: "(string \<times> cval option) \<Rightarrow> config \<Rightarrow> config" where
  "apply_env kv params =
     (case snd kv of None \<Rightarrow> params | Some v \<Rightarrow> AList.update (fst kv) v params)"

text \<open>\<open>params.update(overrides)\<close>.\<close>

definition dict_update :: "config \<Rightarrow> config \<Rightarrow> config" where
  "dict_update params overrides = fold (\<lambda>kv. AList.update (fst kv) (snd kv)) overrides params"

definition get_connection_params :: "environ \<Rightarrow> config \<Rightarrow> py_error + config" where
  "get_connection_params env overrides =
     (case env_overrides env of
        Inl e \<Rightarrow> Inl e
      | Inr eo \<Rightarrow> Inr (dict_update (fold apply_env eo DEFAULT_SETTINGS) overrides))"

definition is_docker_setup :: bool where
  "is_docker_setup = (map_of DEFAULT_SETTINGS ''port'' = Some (CInt 6380))"

definition local_dev_config :: config where
  "local_dev_config =
     [(''host'', CStr ''localhost''),
      (''port'', CInt 6379),
      (''db'', CInt 0),
      (''decode_responses'', CBool True),
      (''socket_timeout'', CInt 2)]"

definition get_fallback_configs :: "environ \<Rightarrow> py_error + config list" where
  "get_fallback_configs env =
     (case get_connection_params env [] of
        Inl e \<Rightarrow> Inl e
      | Inr primary \<Rightarrow>
          (case get_connection_params env [(''port'', CInt 6379)] of
             Inl e \<Rightarrow> Inl e
           | Inr standard \<Rightarrow>
               Inr ([primary, standard] @ (if is_docker_setup then [local_dev_config] else []))))"

section \<open>external\_db\_access.py: the store client\<close>

text \<open>
  The backing store is outside the program. Its answers are given by a \<open>world\<close>: every
  operation is answered from the operations issued so far, so the same request may
  succeed at one time and fail at another. \<open>Inl\<close> is an exception raised by the redis
  client; \<open>redis_ping\<close> is true when \<open>ping()\<close> returns. \<open>redis_connect\<close> answers
  the construction of \<open>redis.Redis\<close> from a configuration followed by \<open>ping()\<close>:
  the handle of the client, or the exception. \<open>float_of\<close> is Python's
  \<open>float(s)\<close> on a \<open>str\<close>, \<open>None\<close> when it raises \<open>ValueError\<close>: its value is the
  nearest IEEE double, which is not computed here.
\<close>

type_synonym handle = nat

type_synonym raw = "(string \<times> string) list"

datatype store_op =
  OpConnect config | OpPing handle | OpHgetall handle string | OpKeys handle string
  | OpClose handle

datatype json =
  JNull | JBool bool | JInt int | JFloat pyfloat | JStr string | JArr "json list"
  | JObj "(string \<times> json) list"

text \<open>
  What \<open>open('allowed_tickers.json')\<close> and \<open>json.load\<close> do at the time of a call:
  the file is absent, it cannot be read for another reason, its text is not JSON, or it
  holds a JSON value.
\<close>

datatype doc_state = FileAbsent | Unreadable | Malformed | Loaded json

record world =
  environ :: environ
  float_of :: "string \<Rightarrow> pyfloat option"
  redis_connect :: "store_op list \<Rightarrow> config \<Rightarrow> py_error + handle"
  redis_ping :: "store_op list \<Rightarrow> handle \<Rightarrow> bool"
  redis_hgetall :: "store_op list \<Rightarrow> handle \<Rightarrow> string \<Rightarrow> py_error + raw"
  redis_keys :: "store_op list \<Rightarrow> handle \<Rightarrow> string \<Rightarrow> py_error + string list"
  config_file :: doc_state

text \<open>
  An \<open>OptionsDatabase\<close> object. \<open>ops\<close> is not a field of the class: it records the
  operations sent to the store, in order.
\<close>

record db =
  redis_client :: "handle option"
  connection_params :: config
  ops :: "store_op list"

definition issue :: "store_op \<Rightarrow> db \<Rightarrow> db" where
  "issue op d = d\<lparr>ops := ops d @ [op]\<rparr>"

definition try_connect :: "world \<Rightarrow> config \<Rightarrow> db \<Rightarrow> bool \<times> db" where
  "try_connect w config d =
     (case redis_connect w (ops d) config of
        Inl e \<Rightarrow> (False, issue (OpConnect config) d)
      | Inr client \<Rightarrow> (True, (issue (OpConnect config) d)\<lparr>redis_client := Some client\<rparr>))"

text \<open>The loop of \<open>_connect\<close> over the fallback configurations.\<close>

fun connect_fallbacks :: "world \<Rightarrow> config list \<Rightarrow> db \<Rightarrow> bool \<times> db" where
  "connect_fallbacks w [] d = (False, d)"
| "connect_fallbacks w (config # rest) d =
     (case try_connect w config d of
        (True, d1) \<Rightarrow> (True, d1\<lparr>connection_params := config\<rparr>)
      | (False, d1) \<Rightarrow> connect_fallbacks w rest d1)"

definition connect :: "world \<Rightarrow> db \<Rightarrow> (py_error + bool) \<times> db" where
  "connect w d =
     (case try_connect w (connection_params d) d of
        (True, d1) \<Rightarrow> (Inr True, d1)
      | (False, d1) \<Rightarrow>
          (case get_fallback_configs (environ w) of
             Inl e \<Rightarrow> (Inl e, d1)
           | Inr configs \<Rightarrow>
               (case connect_fallbacks w configs d1 of (ok, d2) \<Rightarrow> (Inr ok, d2))))"

text \<open>
  \<open>OptionsDatabase.__init__\<close>, started when \<open>tr\<close> has been sent to the store. The result
  of \<open>_connect\<close> is dropped; an exception leaves no object, only the operations sent.
\<close>

definition OptionsDatabase :: "world \<Rightarrow> config \<Rightarrow> store_op list \<Rightarrow> py_error \<times> store_op list + db" where
  "OptionsDatabase w connection_overrides tr =
     (case get_connection_params (environ w) connection_overrides of
        Inl e \<Rightarrow> Inl (e, tr)
      | Inr params \<Rightarrow>
          (case connect w \<lparr>redis_client = None, connection_params = params, ops = tr\<rparr> of
             (Inl e, d) \<Rightarrow> Inl (e, ops d)
           | (Inr ok, d) \<Rightarrow> Inr d))"

definition is_connected :: "world \<Rightarrow> db \<Rightarrow> bool \<times> db" where
  "is_connected w d =
     (case redis_client d of
        None \<Rightarrow> (False, d)
      | Some client \<Rightarrow> (redis_ping w (ops d) client, issue (OpPing client) d))"

definition reconnect :: "world \<Rightarrow> db \<Rightarrow> (py_error + bool) \<times> db" where
  "reconnect w d = connect w d"

definition close :: "db \<Rightarrow> db" where
  "close d =
     (case redis_client d of
        None \<Rightarrow> d
      | Some client \<Rightarrow> (issue (OpClose client) d)\<lparr>redis_client := None\<rparr>)"

subsection \<open>The record mapper\<close>

datatype pyval = VStr string | VFloat pyfloat | VInt int

type_synonym option_record = "(string \<times> pyval) list"

definition dict_get :: "('k \<times> 'v) list \<Rightarrow> 'k \<Rightarrow> 'v \<Rightarrow> 'v" where
  "dict_get d k dflt = (case map_of d k of None \<Rightarrow> dflt | Some v \<Rightarrow> v)"

definition float_fields :: "string list" where
  "float_fields =
     [''last_price'', ''mark_price'', ''index_price'', ''mark_iv'',
      ''underlying_price'', ''bid_price'', ''ask_price'', ''open_interest'',
      ''volume_24h'', ''turnover_24h'', ''delta'', ''gamma'', ''theta'', ''vega'',
      ''bid_size'', ''ask_size'', ''bid_iv'', ''ask_iv'']"

text \<open>The loop over \<open>float_fields\<close>: a field that is not in \<open>data\<close> is not assigned.\<close>

fun parse_fields ::
  "(string \<Rightarrow> pyfloat option) \<Rightarrow> raw \<Rightarrow> string list \<Rightarrow> option_record \<Rightarrow> option_record" where
  "parse_fields pf data [] parsed = parsed"
| "parse_fields pf data (field # rest) parsed =
     parse_fields pf data rest
       (case map_of data field of
          None \<Rightarrow> parsed
        | Some v \<Rightarrow>
            (case pf v of
               Some x \<Rightarrow> AList.update field (VFloat x) parsed
             | None \<Rightarrow> AList.update field (VFloat (Fin 0)) parsed))"

definition parse_timestamp ::
  "(string \<Rightarrow> pyfloat option) \<Rightarrow> raw \<Rightarrow> option_record \<Rightarrow> option_record" where
  "parse_timestamp pf data parsed =
     (case map_of data ''timestamp'' of
        None \<Rightarrow> parsed
      | Some v \<Rightarrow>
          (case pf v of
             Some x \<Rightarrow> AList.update ''timestamp'' (VFloat x) parsed
           | None \<Rightarrow> AList.update ''timestamp'' (VInt 0) parsed))"

definition parse_option_data :: "(string \<Rightarrow> pyfloat option) \<Rightarrow> raw \<Rightarrow> option_record" where
  "parse_option_data pf data =
     (if data = [] then []
      else parse_timestamp pf data
             (parse_fields pf data float_fields
                [(''symbol'', VStr (dict_get data ''symbol'' []))]))"

subsection \<open>The query engine\<close>

text \<open>The key \<open>f"option:{symbol}"\<close>.\<close>

definition option_key :: "string \<Rightarrow> string" where
  "option_key symbol = ''option:'' @ symbol"

definition get_option :: "world \<Rightarrow> string \<Rightarrow> db \<Rightarrow> option_record \<times> db" where
  "get_option w symbol d =
     (case is_connected w d of
        (False, d1) \<Rightarrow> ([], d1)
      | (True, d1) \<Rightarrow>
          (case redis_client d1 of
             None \<Rightarrow> ([], d1)
           | Some client \<Rightarrow>
               (case redis_hgetall w (ops d1) client (option_key symbol) of
                  Inl e \<Rightarrow> ([], issue (OpHgetall client (option_key symbol)) d1)
                | Inr data \<Rightarrow>
                    (if data \<noteq> [] then parse_option_data (float_of w) data else [],
                     issue (OpHgetall client (option_key symbol)) d1))))"

text \<open>
  The pattern of \<open>get_all_symbols\<close>; \<open>None\<close> and the empty string are falsy.
\<close>

definition key_pattern :: "string option \<Rightarrow> string" where
  "key_pattern asset =
     (case asset of
        None \<Rightarrow> ''option:*''
      | Some a \<Rightarrow> if a \<noteq> [] then ''option:'' @ a @ ''-*'' else ''option:*'')"

definition get_all_symbols :: "world \<Rightarrow> string option \<Rightarrow> db \<Rightarrow> string list \<times> db" where
  "get_all_symbols w asset d =
     (case is_connected w d of
        (False, d1) \<Rightarrow> ([], d1)
      | (True, d1) \<Rightarrow>
          (case redis_client d1 of
             None \<Rightarrow> ([], d1)
           | Some client \<Rightarrow>
               (case redis_keys w (ops d1) client (key_pattern asset) of
                  Inl e \<Rightarrow> ([], issue (OpKeys client (key_pattern asset)) d1)
                | Inr keys \<Rightarrow>
                    (map (replace ''option:'' []) keys,
                     issue (OpKeys client (key_pattern asset)) d1))))"

text \<open>
  The loop of \<open>get_options_by_asset\<close> and of \<open>get_all_options\<close> (the two are the same
  text): fetch every symbol, keep the records that are not empty.
\<close>

fun fetch_options ::
  "world \<Rightarrow> string list \<Rightarrow> option_record list \<Rightarrow> db \<Rightarrow> option_record list \<times> db" where
  "fetch_options w [] options d = (options, d)"
| "fetch_options w (symbol # rest) options d =
     (case get_option w symbol d of
        (data, d1) \<Rightarrow>
          fetch_options w rest (if data \<noteq> [] then options @ [data] else options) d1)"

definition get_options_by_asset :: "world \<Rightarrow> string \<Rightarrow> db \<Rightarrow> option_record list \<times> db" where
  "get_options_by_asset w asset d =
     (case get_all_symbols w (Some asset) d of
        (symbols, d1) \<Rightarrow> fetch_options w symbols [] d1)"

definition get_all_options :: "world \<Rightarrow> db \<Rightarrow> option_record list \<times> db" where
  "get_all_options w d =
     (case get_all_symbols w None d of
        (symbols, d1) \<Rightarrow> fetch_options w symbols [] d1)"

text \<open>The loop of \<open>get_options_by_expiry\<close>; \<open>sublist\<close> is Python's \<open>in\<close> on strings.\<close>

fun fetch_expiry ::
  "world \<Rightarrow> string \<Rightarrow> string list \<Rightarrow> option_record list \<Rightarrow> db \<Rightarrow> option_record list \<times> db" where
  "fetch_expiry w expiry [] options d = (options, d)"
| "fetch_expiry w expiry (symbol # rest) options d =
     (if sublist (''-'' @ expiry @ ''-'') symbol then
        (case get_option w symbol d of
           (data, d1) \<Rightarrow>
             fetch_expiry w expiry rest (if data \<noteq> [] then options @ [data] else options) d1)
      else fetch_expiry w expiry rest options d)"

definition get_options_by_expiry ::
  "world \<Rightarrow> string \<Rightarrow> string option \<Rightarrow> db \<Rightarrow> option_record list \<times> db" where
  "get_options_by_expiry w expiry asset d =
     (case get_all_symbols w asset d of
        (all_symbols, d1) \<Rightarrow> fetch_expiry w expiry all_symbols [] d1)"

text \<open>
  \<open>float(x)\<close> on a value of a record. The only integer in a record is 0, so the
  overflow of \<open>float\<close> on a large integer is left out.
\<close>

definition to_float :: "(string \<Rightarrow> pyfloat option) \<Rightarrow> pyval \<Rightarrow> py_error + pyfloat" where
  "to_float pf v =
     (case v of
        VFloat x \<Rightarrow> Inr x
      | VInt i \<Rightarrow> Inr (Fin (of_int i))
      | VStr s \<Rightarrow> (case pf s of None \<Rightarrow> Inl ValueError | Some x \<Rightarrow> Inr x))"

text \<open>
  The comprehension \<open>[opt for opt in options if float(opt.get(field, 0)) >= bound]\<close>;
  the first \<open>float\<close> that raises ends it.
\<close>

fun at_least ::
  "world \<Rightarrow> string \<Rightarrow> pyfloat \<Rightarrow> option_record list \<Rightarrow> py_error + option_record list" where
  "at_least w field bound [] = Inr []"
| "at_least w field bound (opt # rest) =
     (case to_float (float_of w) (dict_get opt field (VInt 0)) of
        Inl e \<Rightarrow> Inl e
      | Inr x \<Rightarrow>
          (case at_least w field bound rest of
             Inl e \<Rightarrow> Inl e
           | Inr kept \<Rightarrow> Inr (if float_ge x bound then opt # kept else kept)))"

definition get_high_volume_options ::
  "world \<Rightarrow> pyfloat \<Rightarrow> string option \<Rightarrow> db \<Rightarrow> (py_error + option_record list) \<times> db" where
  "get_high_volume_options w min_volume asset d =
     (case (case asset of
              None \<Rightarrow> get_all_options w d
            | Some a \<Rightarrow> if a \<noteq> [] then get_options_by_asset w a d else get_all_options w d) of
        (options, d1) \<Rightarrow> (at_least w ''volume_24h'' min_volume options, d1))"

definition default_min_volume :: pyfloat where
  "default_min_volume = Fin 100000"

section \<open>tunnel\_api.py: the allow-list gate and the ticker handler\<close>

definition empty_config :: json where
  "empty_config = JObj [(''allowed'', JArr [])]"

text \<open>
  \<open>load_config\<close> catches \<open>FileNotFoundError\<close> and \<open>json.JSONDecodeError\<close>; any other
  failure to read the file leaves the function as an exception.
\<close>

definition load_config :: "doc_state \<Rightarrow> py_error + json" where
  "load_config doc =
     (case doc of
        FileAbsent \<Rightarrow> Inr empty_config
      | Malformed \<Rightarrow> Inr empty_config
      | Unreadable \<Rightarrow> Inl OSError
      | Loaded j \<Rightarrow> Inr j)"

text \<open>\<open>x.get(key, default)\<close>: only a dictionary has the method.\<close>

definition json_get :: "json \<Rightarrow> string \<Rightarrow> json \<Rightarrow> py_error + json" where
  "json_get x key dflt =
     (case x of JObj kvs \<Rightarrow> Inr (dict_get kvs key dflt) | _ \<Rightarrow> Inl AttributeError)"

text \<open>
  \<open>for item in x\<close>: a list gives its elements, a dictionary its keys, a string its
  characters; \<open>None\<close>, a number or a boolean is not iterable.
\<close>

definition json_iter :: "json \<Rightarrow> py_error + json list" where
  "json_iter x =
     (case x of
        JArr xs \<Rightarrow> Inr xs
      | JObj kvs \<Rightarrow> Inr (map (\<lambda>kv. JStr (fst kv)) kvs)
      | JStr s \<Rightarrow> Inr (map (\<lambda>c. JStr [c]) s)
      | _ \<Rightarrow> Inl TypeError)"

text \<open>\<open>x.upper()\<close>: only a string has the method.\<close>

definition json_upper :: "json \<Rightarrow> py_error + string" where
  "json_upper x = (case x of JStr s \<Rightarrow> Inr (upper s) | _ \<Rightarrow> Inl AttributeError)"

text \<open>
  The loop of \<open>is_allowed\<close>. \<open>and\<close> evaluates the expiry comparison only when the
  assets agree.
\<close>

fun scan_allowed :: "json list \<Rightarrow> string \<Rightarrow> string \<Rightarrow> py_error + bool" where
  "scan_allowed [] asset expiry = Inr False"
| "scan_allowed (item # rest) asset expiry =
     (case json_get item ''asset'' (JStr []) of
        Inl e \<Rightarrow> Inl e
      | Inr a \<Rightarrow>
          (case json_upper a of
             Inl e \<Rightarrow> Inl e
           | Inr u \<Rightarrow>
               if u = upper asset then
                 (case json_get item ''expiry'' (JStr []) of
                    Inl e \<Rightarrow> Inl e
                  | Inr x \<Rightarrow> if x = JStr expiry then Inr True else scan_allowed rest asset expiry)
               else scan_allowed rest asset expiry))"

definition is_allowed :: "doc_state \<Rightarrow> string \<Rightarrow> string \<Rightarrow> py_error + bool" where
  "is_allowed doc asset expiry =
     (case load_config doc of
        Inl e \<Rightarrow> Inl e
      | Inr config \<Rightarrow>
          (case json_get config ''allowed'' (JArr []) of
             Inl e \<Rightarrow> Inl e
           | Inr allowed \<Rightarrow>
               (case json_iter allowed of
                  Inl e \<Rightarrow> Inl e
                | Inr items \<Rightarrow> scan_allowed items asset expiry)))"

text \<open>
  The body returned by \<open>get_ticker\<close>. The two rounded totals and the time stamp are
  floating-point sums and the clock; they are left out of the payload, their calls to
  \<open>float\<close> are kept.
\<close>

record ticker =
  ticker_asset :: string
  ticker_expiry :: string
  total_options :: nat
  call_options :: nat
  put_options :: nat
  ticker_options :: "option_record list"

text \<open>The generator \<open>float(opt.get(field, 0)) for opt in options\<close>.\<close>

fun float_values :: "world \<Rightarrow> string \<Rightarrow> option_record list \<Rightarrow> py_error + pyfloat list" where
  "float_values w field [] = Inr []"
| "float_values w field (opt # rest) =
     (case to_float (float_of w) (dict_get opt field (VInt 0)) of
        Inl e \<Rightarrow> Inl e
      | Inr x \<Rightarrow>
          (case float_values w field rest of Inl e \<Rightarrow> Inl e | Inr xs \<Rightarrow> Inr (x # xs)))"

text \<open>\<open>opt['symbol'].endswith(suffix)\<close>.\<close>

definition symbol_endswith :: "string \<Rightarrow> option_record \<Rightarrow> py_error + bool" where
  "symbol_endswith sfx opt =
     (case map_of opt ''symbol'' of
        None \<Rightarrow> Inl KeyError
      | Some (VStr s) \<Rightarrow> Inr (suffix sfx s)
      | Some _ \<Rightarrow> Inl AttributeError)"

fun select_endswith :: "string \<Rightarrow> option_record list \<Rightarrow> py_error + option_record list" where
  "select_endswith sfx [] = Inr []"
| "select_endswith sfx (opt # rest) =
     (case symbol_endswith sfx opt of
        Inl e \<Rightarrow> Inl e
      | Inr b \<Rightarrow>
          (case select_endswith sfx rest of
             Inl e \<Rightarrow> Inl e
           | Inr kept \<Rightarrow> Inr (if b then opt # kept else kept)))"

text \<open>
  The \<open>try\<close> block of \<open>get_ticker\<close> once the client object exists. The 503 is raised
  inside the block.
\<close>

definition ticker_body :: "world \<Rightarrow> string \<Rightarrow> string \<Rightarrow> db \<Rightarrow> (py_error + ticker) \<times> db" where
  "ticker_body w asset expiry d =
     (case is_connected w d of
        (False, d1) \<Rightarrow> (Inl (HTTPException 503), d1)
      | (True, d1) \<Rightarrow>
          (case get_options_by_expiry w expiry (Some asset) d1 of
             (options, d2) \<Rightarrow>
               (case float_values w ''volume_24h'' options of
                  Inl e \<Rightarrow> (Inl e, d2)
                | Inr volumes \<Rightarrow>
                    (case float_values w ''open_interest'' options of
                       Inl e \<Rightarrow> (Inl e, d2)
                     | Inr interests \<Rightarrow>
                         (case select_endswith ''-C'' options of
                            Inl e \<Rightarrow> (Inl e, d2)
                          | Inr calls \<Rightarrow>
                              (case select_endswith ''-P'' options of
                                 Inl e \<Rightarrow> (Inl e, d2)
                               | Inr puts \<Rightarrow>
                                   (Inr \<lparr>ticker_asset = upper asset,
                                         ticker_expiry = expiry,
                                         total_options = length options,
                                         call_options = length calls,
                                         put_options = length puts,
                                         ticker_options = options\<rparr>, d2)))))))"

definition connect_to_database :: "world \<Rightarrow> store_op list \<Rightarrow> py_error \<times> store_op list + db" where
  "connect_to_database w tr = OptionsDatabase w [] tr"

text \<open>
  \<open>get_ticker\<close>, started when \<open>tr\<close> has been sent to the store; it returns the
  operations sent when it ends. \<open>is_allowed\<close> is called outside the \<open>try\<close>. Inside,
  \<open>except Exception\<close> turns every exception, the 503 too, into a 500, and \<open>finally\<close>
  closes the client when there is one.
\<close>

definition get_ticker ::
  "world \<Rightarrow> string \<Rightarrow> string \<Rightarrow> store_op list \<Rightarrow> (py_error + ticker) \<times> store_op list" where
  "get_ticker w asset expiry tr =
     (case is_allowed (config_file w) asset expiry of
        Inl e \<Rightarrow> (Inl e, tr)
      | Inr False \<Rightarrow> (Inl (HTTPException 404), tr)
      | Inr True \<Rightarrow>
          (case connect_to_database w tr of
             Inl (e, tr1) \<Rightarrow> (Inl (HTTPException 500), tr1)
           | Inr d \<Rightarrow>
               (case ticker_body w asset expiry d of
                  (Inl e, d1) \<Rightarrow> (Inl (HTTPException 500), ops (close d1))
                | (Inr body, d1) \<Rightarrow> (Inr body, ops (close d1)))))"

section \<open>The allow-list document as the specification reads it\<close>

text \<open>
  A document has the shape the specification gives it when it is an object whose
  \<open>allowed\<close> member, if there is one, is a list of entries; an entry is an object whose
  \<open>asset\<close>, if there is one, is a string. An absent \<open>asset\<close> or \<open>expiry\<close> reads as the
  empty string. An entry matches when the assets agree after \<open>upper\<close> and the expiry
  texts are equal.
\<close>

definition entry_ok :: "json \<Rightarrow> bool" where
  "entry_ok item =
     (case item of
        JObj kvs \<Rightarrow> (case dict_get kvs ''asset'' (JStr []) of JStr s \<Rightarrow> True | _ \<Rightarrow> False)
      | _ \<Rightarrow> False)"

definition entry_matches :: "string \<Rightarrow> string \<Rightarrow> json \<Rightarrow> bool" where
  "entry_matches asset expiry item =
     (case item of
        JObj kvs \<Rightarrow>
          (case dict_get kvs ''asset'' (JStr []) of
             JStr s \<Rightarrow> upper s = upper asset \<and> dict_get kvs ''expiry'' (JStr []) = JStr expiry
           | _ \<Rightarrow> False)
      | _ \<Rightarrow> False)"

section \<open>Where a record comes from\<close>

text \<open>
  A record comes from a symbol when it is the mapping of a hash, not empty, that the
  store returned for the key of that symbol.
\<close>

definition mapped_from :: "world \<Rightarrow> string \<Rightarrow> option_record \<Rightarrow> bool" where
  "mapped_from w symbol r =
     (\<exists>tr client data.
        redis_hgetall w tr client (option_key symbol) = Inr data \<and> data \<noteq> []
        \<and> r = parse_option_data (float_of w) data)"

text \<open>
  The test of \<open>get_high_volume_options\<close> on one record: its \<open>volume_24h\<close>, 0 when the
  record has none, is a float and is at least the bound.
\<close>

definition volume_at_least :: "world \<Rightarrow> pyfloat \<Rightarrow> option_record \<Rightarrow> bool" where
  "volume_at_least w bound r =
     (case to_float (float_of w) (dict_get r ''volume_24h'' (VInt 0)) of
        Inl e \<Rightarrow> False
      | Inr v \<Rightarrow> float_ge v bound)"

text \<open>
  The hash that one turn of a loop gets for a symbol in the state \<open>d\<close>: what the store
  returns under the key of the symbol, and the empty hash when the client holds no
  handle, the ping fails or the read raises. \<open>visit_states\<close> lists the states in which
  a loop, started in \<open>d\<close>, calls \<open>get_option\<close> for each symbol in turn.
\<close>

definition fetched_hash :: "world \<Rightarrow> db \<Rightarrow> string \<Rightarrow> raw" where
  "fetched_hash w d symbol =
     (case redis_client d of
        None \<Rightarrow> []
      | Some client \<Rightarrow>
          if redis_ping w (ops d) client then
            (case redis_hgetall w (ops d @ [OpPing client]) client (option_key symbol) of
               Inl e \<Rightarrow> []
             | Inr hash \<Rightarrow> hash)
          else [])"

fun visit_states :: "world \<Rightarrow> string list \<Rightarrow> db \<Rightarrow> db list" where
  "visit_states w [] d = []"
| "visit_states w (symbol # rest) d = d # visit_states w rest (snd (get_option w symbol d))"

section \<open>Example inputs\<close>

text \<open>Environments: nothing set, a port that is not the default, a port that is no number.\<close>

definition env_unset :: environ where
  "env_unset = (\<lambda>name. None)"

definition env_port_7000 :: environ where
  "env_port_7000 = (\<lambda>name. if name = ''REDIS_PORT'' then Some ''7000'' else None)"

definition env_port_abc :: environ where
  "env_port_abc = (\<lambda>name. if name = ''REDIS_PORT'' then Some ''abc'' else None)"

text \<open>
  A parser to run the definitions on examples. It is \<open>float\<close> on a string of one to
  fifteen decimal digits: each such number is a double. It rejects every other string;
  \<open>float\<close> rejects the ones used below, which hold no digit.
\<close>

definition sample_float :: "string \<Rightarrow> pyfloat option" where
  "sample_float s =
     (if s \<noteq> [] \<and> length s \<le> 15 \<and> list_all is_digit s
      then map_option (\<lambda>n. Fin (real n)) (int_digits 0 s) else None)"

definition raw_bad_iv :: raw where
  "raw_bad_iv = [(''symbol'', ''BTC-29DEC23-50000-C''), (''mark_iv'', ''abc''),
                 (''volume_24h'', ''150000''), (''timestamp'', ''soon'')]"

text \<open>Allow-list documents, a store whose key listing holds an odd key, and a client.\<close>

definition btc_entry :: json where
  "btc_entry = JObj [(''asset'', JStr ''BTC''), (''expiry'', JStr ''29DEC23'')]"

definition doc_btc :: doc_state where
  "doc_btc = Loaded (JObj [(''allowed'', JArr [btc_entry])])"

definition doc_number_first :: doc_state where
  "doc_number_first = Loaded (JObj [(''allowed'', JArr [JInt 5, btc_entry])])"

definition odd_world :: world where
  "odd_world =
     \<lparr>environ = env_unset,
      float_of = sample_float,
      redis_connect = (\<lambda>tr config. Inr 1),
      redis_ping = (\<lambda>tr client. True),
      redis_hgetall = (\<lambda>tr client key. Inr []),
      redis_keys = (\<lambda>tr client pattern. Inr [''option:BTC-29DEC23-50000-C'', ''option:X-option:Y'']),
      config_file = FileAbsent\<rparr>"

definition sample_db :: db where
  "sample_db = \<lparr>redis_client = Some 1, connection_params = DEFAULT_SETTINGS, ops = []\<rparr>"

text \<open>
  A store with three options, a listing that also names a key with no hash, and worlds
  where the store is reachable, where nothing answers, where new connections are refused
  while an open one still answers, and where reading a hash fails.
\<close>

definition sample_store :: "string \<Rightarrow> raw" where
  "sample_store key =
     (if key = ''option:BTC-29DEC23-50000-C'' then
        [(''symbol'', ''BTC-29DEC23-50000-C''), (''volume_24h'', ''150000''),
         (''mark_iv'', ''abc'')]
      else if key = ''option:BTC-29DEC23-60000-P'' then
        [(''symbol'', ''BTC-29DEC23-60000-P''), (''volume_24h'', ''500'')]
      else if key = ''option:BTC-30MAR24-50000-C'' then
        [(''symbol'', ''BTC-30MAR24-50000-C''), (''volume_24h'', ''200000'')]
      else [])"

definition sample_keys :: "string list" where
  "sample_keys =
     [''option:BTC-29DEC23-50000-C'', ''option:BTC-29DEC23-60000-P'',
      ''option:BTC-30MAR24-50000-C'', ''option:BTC-29DEC23-70000-C'']"

definition sample_world :: world where
  "sample_world =
     \<lparr>environ = env_unset,
      float_of = sample_float,
      redis_connect = (\<lambda>tr config. Inr 1),
      redis_ping = (\<lambda>tr client. True),
      redis_hgetall = (\<lambda>tr client key. Inr (sample_store key)),
      redis_keys = (\<lambda>tr client pattern. Inr sample_keys),
      config_file = doc_btc\<rparr>"

definition down_world :: world where
  "down_world =
     sample_world\<lparr>redis_connect := (\<lambda>tr config. Inl RedisError),
                  redis_ping := (\<lambda>tr client. False)\<rparr>"

definition refusing_world :: world where
  "refusing_world = sample_world\<lparr>redis_connect := (\<lambda>tr config. Inl RedisError)\<rparr>"

definition failing_world :: world where
  "failing_world = sample_world\<lparr>redis_hgetall := (\<lambda>tr client key. Inl RedisError)\<rparr>"

definition fresh_db :: db where
  "fresh_db = \<lparr>redis_client = None, connection_params = DEFAULT_SETTINGS, ops = []\<rparr>"

text \<open>The example store behind an allow-list with no entry.\<close>

definition empty_list_world :: world where
  "empty_list_world = sample_world\<lparr>config_file := Loaded (JObj [(''allowed'', JArr [])])\<rparr>"

text \<open>
  The example store when one ping is lost, the one sent when two operations have been
  sent; and the example store behind the allow-list that holds a number.
\<close>

definition flaky_world :: world where
  "flaky_world = sample_world\<lparr>redis_ping := (\<lambda>tr client. length tr \<noteq> 2)\<rparr>"

definition number_first_world :: world where
  "number_first_world = sample_world\<lparr>config_file := doc_number_first\<rparr>"

section \<open>Facts about the built-ins and the dictionaries\<close>

lemmas py_int_defs = py_int_def strip_def is_space_def int_body_def is_digit_def digit_val_def

lemma map_of_apply_env:
  "map_of (apply_env (k, v) params) =
     (case v of None \<Rightarrow> map_of params | Some x \<Rightarrow> (map_of params)(k \<mapsto> x))"
  by (simp add: apply_env_def update_conv' split: option.split)

lemma map_of_env_applied:
  "map_of (fold apply_env
      [(''host'', h), (''port'', or_None p), (''db'', or_None n), (''password'', pw)]
      DEFAULT_SETTINGS) ''port'' = Some (CInt (if p = 0 then 6380 else p))"
  "map_of (fold apply_env
      [(''host'', h), (''port'', or_None p), (''db'', or_None n), (''password'', pw)]
      DEFAULT_SETTINGS) ''socket_timeout'' = Some (CInt 5)"
  by (simp_all add: map_of_apply_env or_None_def DEFAULT_SETTINGS_def split: option.split)

lemma get_connection_params_Inr:
  assumes "py_int (getenv_or env ''REDIS_PORT'' ''0'') = Some p"
    and "py_int (getenv_or env ''REDIS_DB'' ''0'') = Some n"
  shows "get_connection_params env overrides =
     Inr (dict_update
       (fold apply_env
          [(''host'', map_option CStr (env ''REDIS_HOST'')), (''port'', or_None p),
           (''db'', or_None n), (''password'', map_option CStr (env ''REDIS_PASSWORD''))]
          DEFAULT_SETTINGS) overrides)"
  using assms by (simp add: get_connection_params_def env_overrides_def)

lemma dict_update_Nil: "dict_update params [] = params"
  by (simp add: dict_update_def)

lemma map_of_dict_update_one:
  "map_of (dict_update params [(k, v)]) = (map_of params)(k \<mapsto> v)"
  by (simp add: dict_update_def update_conv')

lemma is_docker_setup_True: "is_docker_setup"
  by (simp add: is_docker_setup_def DEFAULT_SETTINGS_def)

lemma map_of_parse_fields:
  "map_of (parse_fields pf data fs parsed) k =
     (if k \<in> set fs then
        (case map_of data k of
           None \<Rightarrow> map_of parsed k
         | Some v \<Rightarrow> Some (VFloat (case pf v of None \<Rightarrow> Fin 0 | Some x \<Rightarrow> x)))
      else map_of parsed k)"
proof (induction fs arbitrary: parsed)
  case Nil
  show ?case by simp
next
  case (Cons f fs)
  show ?case
    by (simp add: Cons.IH update_conv' split: option.split)
qed

lemma map_of_parse_timestamp:
  "map_of (parse_timestamp pf data parsed) k =
     (if k = ''timestamp'' then
        (case map_of data ''timestamp'' of
           None \<Rightarrow> map_of parsed k
         | Some v \<Rightarrow> Some (case pf v of None \<Rightarrow> VInt 0 | Some x \<Rightarrow> VFloat x))
      else map_of parsed k)"
  by (simp add: parse_timestamp_def update_conv' split: option.split)

lemma timestamp_not_float_field: "''timestamp'' \<notin> set float_fields"
  by (simp add: float_fields_def)

lemma symbol_not_float_field: "''symbol'' \<notin> set float_fields"
  by (simp add: float_fields_def)

lemma map_of_parse_option_data:
  "data \<noteq> [] \<Longrightarrow>
   map_of (parse_option_data pf data) k =
     (if k = ''timestamp'' then
        (case map_of data ''timestamp'' of
           None \<Rightarrow> None
         | Some v \<Rightarrow> Some (case pf v of None \<Rightarrow> VInt 0 | Some x \<Rightarrow> VFloat x))
      else if k \<in> set float_fields then
        (case map_of data k of
           None \<Rightarrow> None
         | Some v \<Rightarrow> Some (VFloat (case pf v of None \<Rightarrow> Fin 0 | Some x \<Rightarrow> x)))
      else if k = ''symbol'' then Some (VStr (dict_get data ''symbol'' []))
      else None)"
  using timestamp_not_float_field symbol_not_float_field
  by (auto simp add: parse_option_data_def map_of_parse_timestamp map_of_parse_fields
      split: option.split)

lemma parse_option_data_nonempty: "data \<noteq> [] \<Longrightarrow> parse_option_data pf data \<noteq> []"
proof
  assume d: "data \<noteq> []" and e: "parse_option_data pf data = []"
  have "map_of (parse_option_data pf data) ''symbol'' = Some (VStr (dict_get data ''symbol'' []))"
    using symbol_not_float_field by (simp add: map_of_parse_option_data [OF d])
  with e show False by simp
qed

lemma scan_allowed_ok:
  "list_all entry_ok items \<Longrightarrow>
   scan_allowed items asset expiry = Inr (list_ex (entry_matches asset expiry) items)"
proof (induction items)
  case Nil
  show ?case by simp
next
  case (Cons item items)
  from Cons.prems have ok: "entry_ok item" and rest: "list_all entry_ok items" by simp_all
  from ok obtain kvs s where item: "item = JObj kvs" and a: "dict_get kvs ''asset'' (JStr []) = JStr s"
    by (auto simp: entry_ok_def split: json.splits)
  show ?case
    by (simp add: item a json_get_def json_upper_def entry_matches_def Cons.IH [OF rest])
qed

lemma replace_no_occurrence:
  "old \<noteq> [] \<Longrightarrow> \<not> sublist old s \<Longrightarrow> replace old new s = s"
proof (induction s)
  case Nil
  then show ?case by (simp add: replace.simps)
next
  case (Cons c cs)
  then have "\<not> prefix old (c # cs)" and "\<not> sublist old cs"
    by (auto simp: sublist_Cons_right)
  with Cons show ?case by (simp add: replace.simps[of old new "c # cs"])
qed

lemma replace_length_le:
  "old \<noteq> [] \<Longrightarrow> length (replace old [] s) \<le> length s"
proof (induction old "[] :: string" s rule: replace.induct)
  case (1 old s)
  show ?case
  proof (cases "prefix old s")
    case True
    with 1 show ?thesis by (simp add: replace.simps[of old "[]" s])
  next
    case False
    show ?thesis
    proof (cases s)
      case Nil
      with 1(4) show ?thesis by (simp add: replace.simps[of old "[]" "[]"])
    next
      case (Cons c cs)
      with False 1 show ?thesis by (simp add: replace.simps[of old "[]" "c # cs"])
    qed
  qed
qed

lemma replace_length_less:
  "old \<noteq> [] \<Longrightarrow> sublist old s \<Longrightarrow> length (replace old [] s) < length s"
proof (induction s)
  case Nil
  then show ?case by simp
next
  case (Cons c cs)
  show ?case
  proof (cases "prefix old (c # cs)")
    case True
    have "length (replace old [] (drop (length old) (c # cs))) \<le> length (drop (length old) (c # cs))"
      using Cons.prems(1) by (rule replace_length_le)
    moreover have "0 < length old" using Cons.prems(1) by simp
    moreover have "length old \<le> length (c # cs)" using True by (rule prefix_length_le)
    moreover have "length (drop (length old) (c # cs)) = length (c # cs) - length old"
      by (rule length_drop)
    ultimately have "length (replace old [] (drop (length old) (c # cs))) < length (c # cs)"
      by linarith
    with True Cons.prems(1) show ?thesis
      by (simp add: replace.simps[of old "[]" "c # cs"])
  next
    case False
    with Cons.prems have "sublist old cs" by (simp add: sublist_Cons_right)
    with Cons.IH Cons.prems(1) have "length (replace old [] cs) < length cs" by simp
    with False Cons.prems(1) show ?thesis by (simp add: replace.simps[of old "[]" "c # cs"])
  qed
qed

lemma replace_leftmost:
  "old \<noteq> [] \<Longrightarrow> \<not> sublist old (a @ butlast old) \<Longrightarrow>
   replace old new (a @ old @ b) = a @ new @ replace old new b"
proof (induction a)
  case Nil
  then show ?case by (simp add: replace.simps[of old new "old @ b"])
next
  case (Cons c a)
  from Cons.prems(1) obtain ys y where old: "old = ys @ [y]"
    by (cases old rule: rev_cases) auto
  have np: "\<not> prefix old (c # a @ old @ b)"
  proof
    assume "prefix old (c # a @ old @ b)"
    then have "old = take (length old) (c # a @ old @ b)"
      by (metis append_eq_conv_conj prefix_def)
    also have "\<dots> = take (length old) (c # a @ butlast old)"
      by (simp add: old)
    finally have "prefix old (c # a @ butlast old)"
      by (metis take_is_prefix)
    then show False using Cons.prems(2) by (auto simp: sublist_Cons_right)
  qed
  have "\<not> sublist old (a @ butlast old)"
    using Cons.prems(2) by (auto simp: sublist_Cons_right)
  with Cons.IH Cons.prems(1) have "replace old new (a @ old @ b) = a @ new @ replace old new b"
    by simp
  with np Cons.prems(1) show ?case
    by (simp add: replace.simps[of old new "c # a @ old @ b"])
qed

lemma replace_identity_iff:
  "old \<noteq> [] \<Longrightarrow> replace old [] s = s \<longleftrightarrow> \<not> sublist old s"
  using replace_length_less [of old s] replace_no_occurrence [of old s "[]"] by auto

section \<open>Facts about the store client\<close>

lemma try_connect_fail:
  "isl (redis_connect w (ops d) config) \<Longrightarrow>
   try_connect w config d = (False, issue (OpConnect config) d)"
  by (cases "redis_connect w (ops d) config") (simp_all add: try_connect_def)

lemma issue_fields [simp]:
  "redis_client (issue op d) = redis_client d"
  "connection_params (issue op d) = connection_params d"
  "ops (issue op d) = ops d @ [op]"
  by (simp_all add: issue_def)

lemma connect_fallbacks_fail:
  "(\<And>tr config. config \<in> set configs \<Longrightarrow> isl (redis_connect w tr config)) \<Longrightarrow>
   \<exists>d'. connect_fallbacks w configs d = (False, d')
        \<and> redis_client d' = redis_client d \<and> connection_params d' = connection_params d"
proof (induction configs arbitrary: d)
  case Nil
  show ?case by simp
next
  case (Cons config configs)
  have t: "try_connect w config d = (False, issue (OpConnect config) d)"
    by (rule try_connect_fail) (simp add: Cons.prems)
  from Cons.IH [of "issue (OpConnect config) d"] Cons.prems
  obtain d' where "connect_fallbacks w configs (issue (OpConnect config) d) = (False, d')"
    and "redis_client d' = redis_client d" and "connection_params d' = connection_params d"
    by auto
  with t show ?case by simp
qed

lemma is_connected_None: "redis_client d = None \<Longrightarrow> is_connected w d = (False, d)"
  by (simp add: is_connected_def)

lemma sample_fallback_configs:
  "get_fallback_configs env_unset =
     Inr [DEFAULT_SETTINGS, AList.update ''port'' (CInt 6379) DEFAULT_SETTINGS, local_dev_config]"
  by (simp add: get_fallback_configs_def get_connection_params_def env_overrides_def
      getenv_or_def or_None_def apply_env_def dict_update_def is_docker_setup_True
      env_unset_def py_int_defs)

section \<open>Facts about the query engine\<close>

lemma get_option_eq:
  "get_option w symbol d =
     (case redis_client d of
        None \<Rightarrow> ([], d)
      | Some client \<Rightarrow>
          if redis_ping w (ops d) client then
            ((case redis_hgetall w (ops d @ [OpPing client]) client (option_key symbol) of
                Inl e \<Rightarrow> []
              | Inr data \<Rightarrow> parse_option_data (float_of w) data),
             issue (OpHgetall client (option_key symbol)) (issue (OpPing client) d))
          else ([], issue (OpPing client) d))"
  by (simp add: get_option_def is_connected_def parse_option_data_def
      split: option.split sum.split)

lemma get_option_client: "redis_client (snd (get_option w symbol d)) = redis_client d"
  by (simp add: get_option_eq split: option.split)

lemma get_option_ops:
  "\<exists>new. ops (snd (get_option w symbol d)) = ops d @ new
     \<and> (\<forall>client key. OpHgetall client key \<in> set new \<longrightarrow> key = option_key symbol)"
  by (simp add: get_option_eq split: option.split)

lemma get_option_nonempty_iff:
  "fst (get_option w symbol d) \<noteq> [] \<longleftrightarrow>
     (\<exists>client data. redis_client d = Some client \<and> redis_ping w (ops d) client
        \<and> redis_hgetall w (ops d @ [OpPing client]) client (option_key symbol) = Inr data
        \<and> data \<noteq> [])"
proof (cases "redis_client d")
  case None
  then show ?thesis by (simp add: get_option_eq)
next
  case (Some client)
  show ?thesis
  proof (cases "redis_hgetall w (ops d @ [OpPing client]) client (option_key symbol)")
    case (Inl e)
    with Some show ?thesis by (simp add: get_option_eq)
  next
    case (Inr data)
    have "parse_option_data (float_of w) data \<noteq> [] \<longleftrightarrow> data \<noteq> []"
      using parse_option_data_nonempty [of data "float_of w"]
      by (auto simp add: parse_option_data_def)
    with Some Inr show ?thesis by (simp add: get_option_eq)
  qed
qed

lemma get_option_mapped:
  assumes "fst (get_option w symbol d) \<noteq> []"
  shows "mapped_from w symbol (fst (get_option w symbol d))"
proof -
  from assms obtain client data where c: "redis_client d = Some client"
    and p: "redis_ping w (ops d) client"
    and h: "redis_hgetall w (ops d @ [OpPing client]) client (option_key symbol) = Inr data"
    and n: "data \<noteq> []"
    by (auto simp add: get_option_nonempty_iff)
  have "fst (get_option w symbol d) = parse_option_data (float_of w) data"
    using h by (simp add: get_option_eq c p)
  with h n show ?thesis unfolding mapped_from_def by blast
qed

lemma get_all_symbols_eq:
  "get_all_symbols w asset d =
     (case redis_client d of
        None \<Rightarrow> ([], d)
      | Some client \<Rightarrow>
          if redis_ping w (ops d) client then
            ((case redis_keys w (ops d @ [OpPing client]) client (key_pattern asset) of
                Inl e \<Rightarrow> []
              | Inr keys \<Rightarrow> map (replace ''option:'' []) keys),
             issue (OpKeys client (key_pattern asset)) (issue (OpPing client) d))
          else ([], issue (OpPing client) d))"
  by (simp add: get_all_symbols_def is_connected_def split: option.split sum.split)

lemma get_all_symbols_client: "redis_client (snd (get_all_symbols w asset d)) = redis_client d"
  by (simp add: get_all_symbols_eq split: option.split)

lemma get_all_symbols_ops:
  "\<exists>new. ops (snd (get_all_symbols w asset d)) = ops d @ new
     \<and> (\<forall>client key. OpHgetall client key \<notin> set new)"
  by (simp add: get_all_symbols_eq split: option.split)

lemma fetch_expiry_inv:
  "fetch_expiry w expiry symbols acc d = (options, d') \<Longrightarrow>
     (\<forall>r \<in> set options. r \<in> set acc
        \<or> (\<exists>symbol \<in> set symbols. sublist (''-'' @ expiry @ ''-'') symbol \<and> mapped_from w symbol r))
     \<and> (\<exists>new. ops d' = ops d @ new
          \<and> (\<forall>client key. OpHgetall client key \<in> set new \<longrightarrow>
                (\<exists>symbol \<in> set symbols. sublist (''-'' @ expiry @ ''-'') symbol
                   \<and> key = option_key symbol)))"
proof (induction symbols arbitrary: acc d)
  case Nil
  then show ?case by simp
next
  case (Cons symbol symbols)
  show ?case
  proof (cases "sublist (''-'' @ expiry @ ''-'') symbol")
    case False
    with Cons.prems have "fetch_expiry w expiry symbols acc d = (options, d')" by simp
    from Cons.IH [OF this] show ?thesis by auto
  next
    case True
    obtain data d1 where g: "get_option w symbol d = (data, d1)" by (cases "get_option w symbol d")
    let ?acc = "if data \<noteq> [] then acc @ [data] else acc"
    from Cons.prems True g have f: "fetch_expiry w expiry symbols ?acc d1 = (options, d')"
      by simp
    note ih = Cons.IH [OF f]
    from get_option_ops [of w symbol d] g obtain new1 where
      o1: "ops d1 = ops d @ new1"
      and k1: "\<forall>client key. OpHgetall client key \<in> set new1 \<longrightarrow> key = option_key symbol"
      by auto
    from ih obtain new2 where o2: "ops d' = ops d1 @ new2"
      and k2: "\<forall>client key. OpHgetall client key \<in> set new2 \<longrightarrow>
                (\<exists>s \<in> set symbols. sublist (''-'' @ expiry @ ''-'') s \<and> key = option_key s)"
      by auto
    have m: "data \<noteq> [] \<Longrightarrow> mapped_from w symbol data"
      using get_option_mapped [of w symbol d] g by simp
    have a: "\<forall>r \<in> set options. r \<in> set acc
        \<or> (\<exists>s \<in> set (symbol # symbols). sublist (''-'' @ expiry @ ''-'') s \<and> mapped_from w s r)"
    proof
      fix r assume "r \<in> set options"
      with ih have "r \<in> set ?acc
        \<or> (\<exists>s \<in> set symbols. sublist (''-'' @ expiry @ ''-'') s \<and> mapped_from w s r)"
        by blast
      then show "r \<in> set acc
        \<or> (\<exists>s \<in> set (symbol # symbols). sublist (''-'' @ expiry @ ''-'') s \<and> mapped_from w s r)"
        using m True by (auto split: if_splits)
    qed
    have b: "ops d' = ops d @ (new1 @ new2)" using o1 o2 by simp
    have c: "\<forall>client key. OpHgetall client key \<in> set (new1 @ new2) \<longrightarrow>
        (\<exists>s \<in> set (symbol # symbols). sublist (''-'' @ expiry @ ''-'') s \<and> key = option_key s)"
      using k1 k2 True by auto
    from a b c show ?thesis by blast
  qed
qed

lemma fetch_options_inv:
  "fetch_options w symbols acc d = (options, d') \<Longrightarrow>
     \<forall>r \<in> set options. r \<in> set acc \<or> (\<exists>symbol \<in> set symbols. mapped_from w symbol r)"
proof (induction symbols arbitrary: acc d)
  case Nil
  then show ?case by simp
next
  case (Cons symbol symbols)
  obtain data d1 where g: "get_option w symbol d = (data, d1)" by (cases "get_option w symbol d")
  let ?acc = "if data \<noteq> [] then acc @ [data] else acc"
  from Cons.prems g have f: "fetch_options w symbols ?acc d1 = (options, d')" by simp
  note ih = Cons.IH [OF f]
  have m: "data \<noteq> [] \<Longrightarrow> mapped_from w symbol data"
    using get_option_mapped [of w symbol d] g by simp
  show ?case
  proof
    fix r assume "r \<in> set options"
    with ih have "r \<in> set ?acc \<or> (\<exists>s \<in> set symbols. mapped_from w s r)" by blast
    then show "r \<in> set acc \<or> (\<exists>s \<in> set (symbol # symbols). mapped_from w s r)"
      using m by (auto split: if_splits)
  qed
qed

lemma fetch_options_stable:
  assumes "\<And>tr. redis_ping w tr client"
    and "\<And>tr key. redis_hgetall w tr client key = Inr (store key)"
  shows "redis_client d = Some client \<Longrightarrow>
     fst (fetch_options w symbols acc d) =
       acc @ map (\<lambda>s. parse_option_data (float_of w) (store (option_key s)))
               (filter (\<lambda>s. store (option_key s) \<noteq> []) symbols)"
proof (induction symbols arbitrary: acc d)
  case Nil
  show ?case by simp
next
  case (Cons symbol symbols)
  let ?d1 = "issue (OpHgetall client (option_key symbol)) (issue (OpPing client) d)"
  have g: "get_option w symbol d =
      (parse_option_data (float_of w) (store (option_key symbol)), ?d1)"
    by (simp add: get_option_eq Cons.prems assms)
  have c: "redis_client ?d1 = Some client" using Cons.prems by simp
  have n: "parse_option_data (float_of w) (store (option_key symbol)) \<noteq> []
      \<longleftrightarrow> store (option_key symbol) \<noteq> []"
    using parse_option_data_nonempty [of "store (option_key symbol)" "float_of w"]
    by (auto simp add: parse_option_data_def)
  show ?case
    by (simp add: g n Cons.IH [OF c])
qed

lemma sample_symbols:
  "fst (get_all_symbols sample_world asset sample_db) =
     [''BTC-29DEC23-50000-C'', ''BTC-29DEC23-60000-P'', ''BTC-30MAR24-50000-C'',
      ''BTC-29DEC23-70000-C'']"
  by (simp add: get_all_symbols_eq sample_world_def sample_db_def sample_keys_def replace.simps)

lemma sample_world_stable:
  "redis_client sample_db = Some 1"
  "\<And>tr. redis_ping sample_world tr 1"
  "\<And>tr key. redis_hgetall sample_world tr 1 key = Inr (sample_store key)"
  by (simp_all add: sample_db_def sample_world_def)

lemma sample_store_filter:
  "filter (\<lambda>s. sample_store (option_key s) \<noteq> [])
     [''BTC-29DEC23-50000-C'', ''BTC-29DEC23-60000-P'', ''BTC-30MAR24-50000-C'',
      ''BTC-29DEC23-70000-C'']
   = [''BTC-29DEC23-50000-C'', ''BTC-29DEC23-60000-P'', ''BTC-30MAR24-50000-C'']"
  by (simp add: sample_store_def option_key_def)

lemma get_options_by_asset_stable:
  assumes "redis_client d = Some client"
    and "\<And>tr. redis_ping w tr client"
    and "\<And>tr key. redis_hgetall w tr client key = Inr (store key)"
  shows "fst (get_options_by_asset w asset d) =
       map (\<lambda>s. parse_option_data (float_of w) (store (option_key s)))
         (filter (\<lambda>s. store (option_key s) \<noteq> []) (fst (get_all_symbols w (Some asset) d)))"
    and "fst (get_all_options w d) =
       map (\<lambda>s. parse_option_data (float_of w) (store (option_key s)))
         (filter (\<lambda>s. store (option_key s) \<noteq> []) (fst (get_all_symbols w None d)))"
proof -
  have c: "redis_client (snd (get_all_symbols w a d)) = Some client" for a
    by (simp add: get_all_symbols_client assms(1))
  show "fst (get_options_by_asset w asset d) =
       map (\<lambda>s. parse_option_data (float_of w) (store (option_key s)))
         (filter (\<lambda>s. store (option_key s) \<noteq> []) (fst (get_all_symbols w (Some asset) d)))"
    using fetch_options_stable [of w client store "snd (get_all_symbols w (Some asset) d)"
        "fst (get_all_symbols w (Some asset) d)" "[]", OF assms(2) assms(3) c]
    by (simp add: get_options_by_asset_def split_beta)
  show "fst (get_all_options w d) =
       map (\<lambda>s. parse_option_data (float_of w) (store (option_key s)))
         (filter (\<lambda>s. store (option_key s) \<noteq> []) (fst (get_all_symbols w None d)))"
    using fetch_options_stable [of w client store "snd (get_all_symbols w None d)"
        "fst (get_all_symbols w None d)" "[]", OF assms(2) assms(3) c]
    by (simp add: get_all_options_def split_beta)
qed

lemma float_ge_not_lt: "float_ge a b \<Longrightarrow> \<not> float_lt a b"
  by (cases a; cases b) auto

lemma mapped_from_float:
  assumes "mapped_from w symbol r" and "field \<in> set float_fields"
  shows "\<exists>v. to_float (float_of w) (dict_get r field (VInt 0)) = Inr v"
proof -
  from assms(1) obtain data where d: "data \<noteq> []"
    and r: "r = parse_option_data (float_of w) data"
    unfolding mapped_from_def by blast
  from assms(2) timestamp_not_float_field have nt: "field \<noteq> ''timestamp''" by auto
  show ?thesis
    using assms(2) nt
    by (simp add: r dict_get_def map_of_parse_option_data [OF d] to_float_def
        split: option.split)
qed

lemma at_least_volume_filter:
  "(\<forall>r \<in> set options. \<exists>v. to_float (float_of w) (dict_get r ''volume_24h'' (VInt 0)) = Inr v)
   \<Longrightarrow> at_least w ''volume_24h'' bound options = Inr (filter (volume_at_least w bound) options)"
proof (induction options)
  case Nil
  show ?case by simp
next
  case (Cons r options)
  from Cons.prems obtain v where v: "to_float (float_of w) (dict_get r ''volume_24h'' (VInt 0)) = Inr v"
    by auto
  from Cons.prems have "at_least w ''volume_24h'' bound options
      = Inr (filter (volume_at_least w bound) options)"
    by (intro Cons.IH) simp
  moreover have "volume_at_least w bound r = float_ge v bound"
    by (simp add: volume_at_least_def v)
  ultimately show ?case by (simp add: v)
qed

lemma volume_field: "''volume_24h'' \<in> set float_fields"
  by (simp add: float_fields_def)

lemma fetch_options_floats:
  assumes "fetch_options w symbols [] d = (options, d')"
  shows "\<forall>r \<in> set options. \<exists>v. to_float (float_of w) (dict_get r ''volume_24h'' (VInt 0)) = Inr v"
  using fetch_options_inv [OF assms] mapped_from_float [OF _ volume_field] by fastforce

lemma get_options_by_asset_empty: "get_options_by_asset w [] d = get_all_options w d"
proof -
  have "key_pattern (Some []) = key_pattern None" by (simp add: key_pattern_def)
  then have "get_all_symbols w (Some []) d = get_all_symbols w None d"
    by (simp only: get_all_symbols_def)
  then show ?thesis by (simp only: get_options_by_asset_def get_all_options_def)
qed

lemma get_options_floats:
  "\<forall>r \<in> set (fst (get_options_by_asset w a d)).
      \<exists>v. to_float (float_of w) (dict_get r ''volume_24h'' (VInt 0)) = Inr v"
  "\<forall>r \<in> set (fst (get_all_options w d)).
      \<exists>v. to_float (float_of w) (dict_get r ''volume_24h'' (VInt 0)) = Inr v"
proof -
  show "\<forall>r \<in> set (fst (get_options_by_asset w a d)).
      \<exists>v. to_float (float_of w) (dict_get r ''volume_24h'' (VInt 0)) = Inr v"
    using fetch_options_floats [of w "fst (get_all_symbols w (Some a) d)"
        "snd (get_all_symbols w (Some a) d)" "fst (get_options_by_asset w a d)"
        "snd (get_options_by_asset w a d)"]
    by (simp add: get_options_by_asset_def split_beta)
  show "\<forall>r \<in> set (fst (get_all_options w d)).
      \<exists>v. to_float (float_of w) (dict_get r ''volume_24h'' (VInt 0)) = Inr v"
    using fetch_options_floats [of w "fst (get_all_symbols w None d)"
        "snd (get_all_symbols w None d)" "fst (get_all_options w d)"
        "snd (get_all_options w d)"]
    by (simp add: get_all_options_def split_beta)
qed

lemma get_high_volume_options_eq:
  "fst (get_high_volume_options w min_volume asset d) =
     Inr (filter (volume_at_least w min_volume)
            (case asset of
               None \<Rightarrow> fst (get_all_options w d)
             | Some a \<Rightarrow> fst (get_options_by_asset w a d)))"
proof (cases asset)
  case None
  then show ?thesis
    by (simp add: get_high_volume_options_def split_beta at_least_volume_filter get_options_floats)
next
  case (Some a)
  then show ?thesis
    by (cases "a = []")
       (simp_all add: get_high_volume_options_def split_beta at_least_volume_filter
          get_options_floats get_options_by_asset_empty)
qed

lemma sample_volumes:
  "volume_at_least sample_world default_min_volume
     (parse_option_data sample_float (sample_store (option_key ''BTC-29DEC23-50000-C'')))"
  "\<not> volume_at_least sample_world default_min_volume
     (parse_option_data sample_float (sample_store (option_key ''BTC-29DEC23-60000-P'')))"
  "volume_at_least sample_world default_min_volume
     (parse_option_data sample_float (sample_store (option_key ''BTC-30MAR24-50000-C'')))"
  using volume_field timestamp_not_float_field
  by (simp_all add: volume_at_least_def dict_get_def map_of_parse_option_data to_float_def
      sample_store_def option_key_def sample_world_def sample_float_def is_digit_def
      digit_val_def default_min_volume_def)

lemma fetch_expiry_stable:
  assumes "\<And>tr. redis_ping w tr client"
    and "\<And>tr key. redis_hgetall w tr client key = Inr (store key)"
  shows "redis_client d = Some client \<Longrightarrow>
     fst (fetch_expiry w expiry symbols acc d) =
       acc @ map (\<lambda>s. parse_option_data (float_of w) (store (option_key s)))
               (filter (\<lambda>s. sublist (''-'' @ expiry @ ''-'') s \<and> store (option_key s) \<noteq> [])
                  symbols)"
proof (induction symbols arbitrary: acc d)
  case Nil
  show ?case by simp
next
  case (Cons symbol symbols)
  show ?case
  proof (cases "sublist (''-'' @ expiry @ ''-'') symbol")
    case False
    then show ?thesis using Cons.IH [OF Cons.prems] by simp
  next
    case True
    let ?d1 = "issue (OpHgetall client (option_key symbol)) (issue (OpPing client) d)"
    have g: "get_option w symbol d =
        (parse_option_data (float_of w) (store (option_key symbol)), ?d1)"
      by (simp add: get_option_eq Cons.prems assms)
    have c: "redis_client ?d1 = Some client" using Cons.prems by simp
    have n: "parse_option_data (float_of w) (store (option_key symbol)) \<noteq> []
        \<longleftrightarrow> store (option_key symbol) \<noteq> []"
      using parse_option_data_nonempty [of "store (option_key symbol)" "float_of w"]
      by (auto simp add: parse_option_data_def)
    from True show ?thesis
      by (simp add: g n Cons.IH [OF c])
  qed
qed

lemma get_options_by_expiry_stable:
  assumes "redis_client d = Some client"
    and "\<And>tr. redis_ping w tr client"
    and "\<And>tr key. redis_hgetall w tr client key = Inr (store key)"
  shows "fst (get_options_by_expiry w expiry asset d) =
       map (\<lambda>s. parse_option_data (float_of w) (store (option_key s)))
         (filter (\<lambda>s. sublist (''-'' @ expiry @ ''-'') s \<and> store (option_key s) \<noteq> [])
            (fst (get_all_symbols w asset d)))"
proof -
  have c: "redis_client (snd (get_all_symbols w asset d)) = Some client"
    by (simp add: get_all_symbols_client assms(1))
  show ?thesis
    using fetch_expiry_stable [of w client store "snd (get_all_symbols w asset d)" expiry
        "fst (get_all_symbols w asset d)" "[]", OF assms(2) assms(3) c]
    by (simp add: get_options_by_expiry_def split_beta)
qed

lemma sample_symbols_any:
  "redis_client d = Some 1 \<Longrightarrow>
   fst (get_all_symbols sample_world asset d) =
     [''BTC-29DEC23-50000-C'', ''BTC-29DEC23-60000-P'', ''BTC-30MAR24-50000-C'',
      ''BTC-29DEC23-70000-C'']"
  by (simp add: get_all_symbols_eq sample_world_def sample_keys_def replace.simps)

lemma sample_expiry_filter:
  "filter (\<lambda>s. sublist (''-'' @ ''29DEC23'' @ ''-'') s \<and> sample_store (option_key s) \<noteq> [])
     [''BTC-29DEC23-50000-C'', ''BTC-29DEC23-60000-P'', ''BTC-30MAR24-50000-C'',
      ''BTC-29DEC23-70000-C'']
   = [''BTC-29DEC23-50000-C'', ''BTC-29DEC23-60000-P'']"
  by (simp add: sample_store_def option_key_def sublist_Cons_right)

lemma option_key_inject: "option_key a = option_key b \<longleftrightarrow> a = b"
  by (simp add: option_key_def)

section \<open>Facts about the gate and the handler\<close>

lemma is_allowed_no_document:
  "is_allowed FileAbsent asset expiry = Inr False"
  "is_allowed Malformed asset expiry = Inr False"
  by (simp_all add: is_allowed_def load_config_def empty_config_def json_get_def json_iter_def
      dict_get_def)

lemma is_allowed_shape:
  "dict_get kvs ''allowed'' (JArr []) = JArr items \<Longrightarrow> list_all entry_ok items \<Longrightarrow>
   is_allowed (Loaded (JObj kvs)) asset expiry = Inr (list_ex (entry_matches asset expiry) items)"
  by (simp add: is_allowed_def load_config_def json_get_def json_iter_def scan_allowed_ok)

lemma sample_connect:
  "connect_to_database sample_world tr =
     Inr \<lparr>redis_client = Some 1, connection_params = DEFAULT_SETTINGS,
          ops = tr @ [OpConnect DEFAULT_SETTINGS]\<rparr>"
  by (simp add: connect_to_database_def OptionsDatabase_def get_connection_params_def
      env_overrides_def getenv_or_def or_None_def apply_env_def dict_update_def
      sample_world_def env_unset_def py_int_defs connect_def try_connect_def issue_def)

lemma sample_allowed: "is_allowed (config_file sample_world) ''BTC'' ''29DEC23'' = Inr True"
  by (simp add: sample_world_def doc_btc_def btc_entry_def is_allowed_def load_config_def
      json_get_def json_iter_def json_upper_def dict_get_def upper_def upper_char_def)

text \<open>
  The handler on an allowed pair, run on the example store: one connection, the listing,
  three reads, the close, and a body that counts one call and one put.
\<close>

lemma sample_ticker_body:
  "ticker_body sample_world ''BTC'' ''29DEC23''
     \<lparr>redis_client = Some 1, connection_params = DEFAULT_SETTINGS,
      ops = [OpConnect DEFAULT_SETTINGS]\<rparr> =
   (Inr \<lparr>ticker_asset = ''BTC'', ticker_expiry = ''29DEC23'', total_options = 2,
         call_options = 1, put_options = 1,
         ticker_options =
           [parse_option_data sample_float (sample_store ''option:BTC-29DEC23-50000-C''),
            parse_option_data sample_float (sample_store ''option:BTC-29DEC23-60000-P'')]\<rparr>,
    \<lparr>redis_client = Some 1, connection_params = DEFAULT_SETTINGS,
     ops = [OpConnect DEFAULT_SETTINGS, OpPing 1, OpPing 1, OpKeys 1 ''option:BTC-*'',
            OpPing 1, OpHgetall 1 ''option:BTC-29DEC23-50000-C'',
            OpPing 1, OpHgetall 1 ''option:BTC-29DEC23-60000-P'',
            OpPing 1, OpHgetall 1 ''option:BTC-29DEC23-70000-C'']\<rparr>)"
proof -
  have n: "sample_store ''option:BTC-29DEC23-50000-C'' \<noteq> []"
    "sample_store ''option:BTC-29DEC23-60000-P'' \<noteq> []"
    "sample_store ''option:BTC-29DEC23-70000-C'' = []"
    by (simp_all add: sample_store_def)
  have e: "parse_option_data sample_float [] = []" by (simp add: parse_option_data_def)
  have m: "map_of (parse_option_data sample_float (sample_store ''option:BTC-29DEC23-50000-C''))
       ''volume_24h'' = Some (VFloat (Fin 150000))"
    "map_of (parse_option_data sample_float (sample_store ''option:BTC-29DEC23-50000-C''))
       ''open_interest'' = None"
    "map_of (parse_option_data sample_float (sample_store ''option:BTC-29DEC23-50000-C''))
       ''symbol'' = Some (VStr ''BTC-29DEC23-50000-C'')"
    "map_of (parse_option_data sample_float (sample_store ''option:BTC-29DEC23-60000-P''))
       ''volume_24h'' = Some (VFloat (Fin 500))"
    "map_of (parse_option_data sample_float (sample_store ''option:BTC-29DEC23-60000-P''))
       ''open_interest'' = None"
    "map_of (parse_option_data sample_float (sample_store ''option:BTC-29DEC23-60000-P''))
       ''symbol'' = Some (VStr ''BTC-29DEC23-60000-P'')"
    by (simp_all add: map_of_parse_option_data n float_fields_def)
       (simp_all add: sample_store_def sample_float_def is_digit_def digit_val_def dict_get_def)
  have p: "parse_option_data sample_float (sample_store ''option:BTC-29DEC23-50000-C'') \<noteq> []"
    "parse_option_data sample_float (sample_store ''option:BTC-29DEC23-60000-P'') \<noteq> []"
    by (simp_all add: parse_option_data_nonempty n)
  have w: "float_of sample_world = sample_float"
    "redis_ping sample_world = (\<lambda>tr client. True)"
    "redis_hgetall sample_world = (\<lambda>tr client key. Inr (sample_store key))"
    "redis_keys sample_world = (\<lambda>tr client pattern. Inr sample_keys)"
    by (simp_all add: sample_world_def)
  show ?thesis
    by (simp add: ticker_body_def is_connected_def get_options_by_expiry_def
        get_all_symbols_eq get_option_eq issue_def w sample_keys_def option_key_def
        key_pattern_def replace.simps sublist_Cons_right n e p m dict_get_def to_float_def
        symbol_endswith_def suffix_to_prefix upper_def upper_char_def)
qed

lemma sample_ticker:
  "get_ticker sample_world ''BTC'' ''29DEC23'' [] =
   (Inr \<lparr>ticker_asset = ''BTC'', ticker_expiry = ''29DEC23'', total_options = 2,
         call_options = 1, put_options = 1,
         ticker_options =
           [parse_option_data sample_float (sample_store ''option:BTC-29DEC23-50000-C''),
            parse_option_data sample_float (sample_store ''option:BTC-29DEC23-60000-P'')]\<rparr>,
    [OpConnect DEFAULT_SETTINGS, OpPing 1, OpPing 1, OpKeys 1 ''option:BTC-*'',
     OpPing 1, OpHgetall 1 ''option:BTC-29DEC23-50000-C'',
     OpPing 1, OpHgetall 1 ''option:BTC-29DEC23-60000-P'',
     OpPing 1, OpHgetall 1 ''option:BTC-29DEC23-70000-C'', OpClose 1])"
  by (simp add: get_ticker_def sample_allowed sample_connect sample_ticker_body close_def
      issue_def del: One_nat_def)

section \<open>Facts about the loops in any world\<close>

lemma get_option_fetched:
  "fst (get_option w symbol d) = parse_option_data (float_of w) (fetched_hash w d symbol)"
  by (simp add: get_option_eq fetched_hash_def parse_option_data_def
      split: option.split sum.split)

lemma fetched_hash_nonempty:
  "parse_option_data (float_of w) (fetched_hash w d symbol) \<noteq> []
     \<longleftrightarrow> fetched_hash w d symbol \<noteq> []"
  using parse_option_data_nonempty [of "fetched_hash w d symbol" "float_of w"]
  by (auto simp add: parse_option_data_def)

lemma fetch_options_general:
  "fst (fetch_options w symbols acc d) =
     acc @ map (\<lambda>(s, st). parse_option_data (float_of w) (fetched_hash w st s))
             (filter (\<lambda>(s, st). fetched_hash w st s \<noteq> [])
                (zip symbols (visit_states w symbols d)))"
proof (induction symbols arbitrary: acc d)
  case Nil
  show ?case by simp
next
  case (Cons symbol symbols)
  obtain data d1 where g: "get_option w symbol d = (data, d1)" by (cases "get_option w symbol d")
  then have data: "data = parse_option_data (float_of w) (fetched_hash w d symbol)"
    using get_option_fetched [of w symbol d] by simp
  from g have d1: "snd (get_option w symbol d) = d1" by simp
  show ?case
    using fetched_hash_nonempty [of w d symbol]
    by (simp add: g d1 data Cons.IH)
qed

lemma get_options_general:
  "fst (get_options_by_asset w asset d) =
     map (\<lambda>(s, st). parse_option_data (float_of w) (fetched_hash w st s))
       (filter (\<lambda>(s, st). fetched_hash w st s \<noteq> [])
          (zip (fst (get_all_symbols w (Some asset) d))
               (visit_states w (fst (get_all_symbols w (Some asset) d))
                  (snd (get_all_symbols w (Some asset) d)))))"
  "fst (get_all_options w d) =
     map (\<lambda>(s, st). parse_option_data (float_of w) (fetched_hash w st s))
       (filter (\<lambda>(s, st). fetched_hash w st s \<noteq> [])
          (zip (fst (get_all_symbols w None d))
               (visit_states w (fst (get_all_symbols w None d))
                  (snd (get_all_symbols w None d)))))"
  using fetch_options_general [of w _ "[]"]
  by (simp_all add: get_options_by_asset_def get_all_options_def split_beta)

lemma flaky_symbols:
  "get_all_symbols flaky_world (Some ''BTC'') sample_db =
     ([''BTC-29DEC23-50000-C'', ''BTC-29DEC23-60000-P'', ''BTC-30MAR24-50000-C'',
       ''BTC-29DEC23-70000-C''],
      \<lparr>redis_client = Some 1, connection_params = DEFAULT_SETTINGS,
       ops = [OpPing 1, OpKeys 1 ''option:BTC-*'']\<rparr>)"
  by (simp add: get_all_symbols_eq flaky_world_def sample_world_def sample_db_def
      sample_keys_def replace.simps key_pattern_def issue_def)

lemma flaky_states:
  "visit_states flaky_world
     [''BTC-29DEC23-50000-C'', ''BTC-29DEC23-60000-P'', ''BTC-30MAR24-50000-C'',
      ''BTC-29DEC23-70000-C'']
     \<lparr>redis_client = Some 1, connection_params = DEFAULT_SETTINGS,
      ops = [OpPing 1, OpKeys 1 ''option:BTC-*'']\<rparr> =
   [\<lparr>redis_client = Some 1, connection_params = DEFAULT_SETTINGS,
      ops = [OpPing 1, OpKeys 1 ''option:BTC-*'']\<rparr>,
    \<lparr>redis_client = Some 1, connection_params = DEFAULT_SETTINGS,
      ops = [OpPing 1, OpKeys 1 ''option:BTC-*'', OpPing 1]\<rparr>,
    \<lparr>redis_client = Some 1, connection_params = DEFAULT_SETTINGS,
      ops = [OpPing 1, OpKeys 1 ''option:BTC-*'', OpPing 1,
             OpPing 1, OpHgetall 1 ''option:BTC-29DEC23-60000-P'']\<rparr>,
    \<lparr>redis_client = Some 1, connection_params = DEFAULT_SETTINGS,
      ops = [OpPing 1, OpKeys 1 ''option:BTC-*'', OpPing 1,
             OpPing 1, OpHgetall 1 ''option:BTC-29DEC23-60000-P'',
             OpPing 1, OpHgetall 1 ''option:BTC-30MAR24-50000-C'']\<rparr>]"
  by (simp add: get_option_eq flaky_world_def sample_world_def issue_def option_key_def)

lemma flaky_hashes:
  "fetched_hash flaky_world
     \<lparr>redis_client = Some 1, connection_params = DEFAULT_SETTINGS,
      ops = [OpPing 1, OpKeys 1 ''option:BTC-*'']\<rparr> ''BTC-29DEC23-50000-C'' = []"
  "fetched_hash flaky_world
     \<lparr>redis_client = Some 1, connection_params = DEFAULT_SETTINGS,
      ops = [OpPing 1, OpKeys 1 ''option:BTC-*'', OpPing 1]\<rparr> ''BTC-29DEC23-60000-P''
     = sample_store (option_key ''BTC-29DEC23-60000-P'')"
  "fetched_hash flaky_world
     \<lparr>redis_client = Some 1, connection_params = DEFAULT_SETTINGS,
      ops = [OpPing 1, OpKeys 1 ''option:BTC-*'', OpPing 1,
             OpPing 1, OpHgetall 1 ''option:BTC-29DEC23-60000-P'']\<rparr> ''BTC-30MAR24-50000-C''
     = sample_store (option_key ''BTC-30MAR24-50000-C'')"
  "fetched_hash flaky_world
     \<lparr>redis_client = Some 1, connection_params = DEFAULT_SETTINGS,
      ops = [OpPing 1, OpKeys 1 ''option:BTC-*'', OpPing 1,
             OpPing 1, OpHgetall 1 ''option:BTC-29DEC23-60000-P'',
             OpPing 1, OpHgetall 1 ''option:BTC-30MAR24-50000-C'']\<rparr> ''BTC-29DEC23-70000-C''
     = []"
  by (simp_all add: fetched_hash_def flaky_world_def sample_world_def sample_store_def
      option_key_def)

lemma flaky_store_nonempty:
  "sample_store (option_key ''BTC-29DEC23-60000-P'') \<noteq> []"
  "sample_store (option_key ''BTC-30MAR24-50000-C'') \<noteq> []"
  by (simp_all add: sample_store_def option_key_def)

lemma flaky_by_asset_from:
  assumes "fst (get_options_by_asset flaky_world ''BTC'' sample_db) =
     map (\<lambda>(s, st). parse_option_data (float_of flaky_world) (fetched_hash flaky_world st s))
       (filter (\<lambda>(s, st). fetched_hash flaky_world st s \<noteq> [])
          (zip (fst (get_all_symbols flaky_world (Some ''BTC'') sample_db))
               (visit_states flaky_world (fst (get_all_symbols flaky_world (Some ''BTC'') sample_db))
                  (snd (get_all_symbols flaky_world (Some ''BTC'') sample_db)))))"
  shows "fst (get_options_by_asset flaky_world ''BTC'' sample_db) =
     map (\<lambda>s. parse_option_data sample_float (sample_store (option_key s)))
       [''BTC-29DEC23-60000-P'', ''BTC-30MAR24-50000-C'']"
proof -
  have f: "float_of flaky_world = sample_float"
    by (simp add: flaky_world_def sample_world_def)
  show ?thesis
    by (simp only: assms flaky_symbols fst_conv snd_conv flaky_states)
       (simp add: flaky_hashes flaky_store_nonempty f del: One_nat_def)
qed

lemma number_first_ticker:
  "get_ticker number_first_world ''ETH'' ''29DEC23'' [] = (Inl AttributeError, [])"
  by (simp add: get_ticker_def number_first_world_def sample_world_def doc_number_first_def
      is_allowed_def load_config_def json_get_def json_iter_def dict_get_def)

section \<open>The record mapper\<close>

text \<open>
  Claim C1, as the code has it. \<open>_parse_option_data\<close> maps the empty raw map to the
  empty record. On a raw map that is not empty the record is not empty, and for each
  known numeric field: a field of the raw map is in the record, as the parsed float, or
  as 0.0 when its text cannot be parsed; a field that is absent from the raw map is absent
  from the record too, so that reading it with the default 0, as the sources do, gives
  0.0. The time stamp goes the same way, with the integer 0 for text that cannot be
  parsed. The function is total: it has no raising branch.
\<close>

theorem parse_option_data_fields:
  "parse_option_data pf [] = []
   \<and> (data \<noteq> [] \<longrightarrow>
        parse_option_data pf data \<noteq> []
        \<and> (\<forall>field \<in> set float_fields.
             map_of (parse_option_data pf data) field =
               (case map_of data field of
                  None \<Rightarrow> None
                | Some v \<Rightarrow> Some (VFloat (case pf v of None \<Rightarrow> Fin 0 | Some x \<Rightarrow> x)))
             \<and> (map_of data field = None \<or> (\<exists>v. map_of data field = Some v \<and> pf v = None)
                  \<longrightarrow> to_float pf (dict_get (parse_option_data pf data) field (VInt 0))
                        = Inr (Fin 0)))
        \<and> map_of (parse_option_data pf data) ''timestamp'' =
            (case map_of data ''timestamp'' of
               None \<Rightarrow> None
             | Some v \<Rightarrow> Some (case pf v of None \<Rightarrow> VInt 0 | Some x \<Rightarrow> VFloat x)))"
proof (intro conjI impI ballI)
  show "parse_option_data pf [] = []" by (simp add: parse_option_data_def)
next
  assume "data \<noteq> []"
  then show "parse_option_data pf data \<noteq> []" by (rule parse_option_data_nonempty)
next
  fix field assume d: "data \<noteq> []" and f: "field \<in> set float_fields"
  from f timestamp_not_float_field have nt: "field \<noteq> ''timestamp''" by auto
  show m: "map_of (parse_option_data pf data) field =
      (case map_of data field of
         None \<Rightarrow> None
       | Some v \<Rightarrow> Some (VFloat (case pf v of None \<Rightarrow> Fin 0 | Some x \<Rightarrow> x)))"
    using f nt by (simp add: map_of_parse_option_data [OF d])
  assume "map_of data field = None \<or> (\<exists>v. map_of data field = Some v \<and> pf v = None)"
  then show "to_float pf (dict_get (parse_option_data pf data) field (VInt 0)) = Inr (Fin 0)"
    by (auto simp add: dict_get_def m to_float_def)
next
  assume d: "data \<noteq> []"
  show "map_of (parse_option_data pf data) ''timestamp'' =
      (case map_of data ''timestamp'' of
         None \<Rightarrow> None
       | Some v \<Rightarrow> Some (case pf v of None \<Rightarrow> VInt 0 | Some x \<Rightarrow> VFloat x))"
    by (simp add: map_of_parse_option_data [OF d])
qed

text \<open>The theorem at a raw map whose \<open>mark_iv\<close> and \<open>timestamp\<close> cannot be parsed.\<close>

theorem parse_option_data_fields_witness:
  "raw_bad_iv \<noteq> []
   \<and> ''mark_iv'' \<in> set float_fields \<and> ''volume_24h'' \<in> set float_fields
   \<and> ''delta'' \<in> set float_fields
   \<and> parse_option_data sample_float raw_bad_iv \<noteq> []
   \<and> map_of (parse_option_data sample_float raw_bad_iv) ''mark_iv'' = Some (VFloat (Fin 0))
   \<and> map_of (parse_option_data sample_float raw_bad_iv) ''volume_24h'' = Some (VFloat (Fin 150000))
   \<and> map_of (parse_option_data sample_float raw_bad_iv) ''delta'' = None
   \<and> to_float sample_float (dict_get (parse_option_data sample_float raw_bad_iv) ''delta'' (VInt 0))
       = Inr (Fin 0)
   \<and> map_of (parse_option_data sample_float raw_bad_iv) ''timestamp'' = Some (VInt 0)"
proof -
  have d: "raw_bad_iv \<noteq> []" by (simp add: raw_bad_iv_def)
  have f: "''mark_iv'' \<in> set float_fields" "''volume_24h'' \<in> set float_fields"
    "''delta'' \<in> set float_fields"
    by (simp_all add: float_fields_def)
  have l: "map_of raw_bad_iv ''mark_iv'' = Some ''abc''"
    "map_of raw_bad_iv ''volume_24h'' = Some ''150000''"
    "map_of raw_bad_iv ''delta'' = None"
    "map_of raw_bad_iv ''timestamp'' = Some ''soon''"
    by (simp_all add: raw_bad_iv_def)
  have s: "sample_float ''abc'' = None" "sample_float ''150000'' = Some (Fin 150000)"
    "sample_float ''soon'' = None"
    by (simp_all add: sample_float_def is_digit_def digit_val_def)
  from parse_option_data_fields [of sample_float raw_bad_iv] d
  have t: "parse_option_data sample_float raw_bad_iv \<noteq> []
        \<and> (\<forall>field \<in> set float_fields.
             map_of (parse_option_data sample_float raw_bad_iv) field =
               (case map_of raw_bad_iv field of
                  None \<Rightarrow> None
                | Some v \<Rightarrow> Some (VFloat (case sample_float v of None \<Rightarrow> Fin 0 | Some x \<Rightarrow> x)))
             \<and> (map_of raw_bad_iv field = None \<or> (\<exists>v. map_of raw_bad_iv field = Some v \<and> sample_float v = None)
                  \<longrightarrow> to_float sample_float (dict_get (parse_option_data sample_float raw_bad_iv) field (VInt 0))
                        = Inr (Fin 0)))
        \<and> map_of (parse_option_data sample_float raw_bad_iv) ''timestamp'' =
            (case map_of raw_bad_iv ''timestamp'' of
               None \<Rightarrow> None
             | Some v \<Rightarrow> Some (case sample_float v of None \<Rightarrow> VInt 0 | Some x \<Rightarrow> VFloat x))"
    by blast
  from t f(1) l(1) s(1) have a: "map_of (parse_option_data sample_float raw_bad_iv) ''mark_iv'' = Some (VFloat (Fin 0))"
    by fastforce
  from t f(2) l(2) s(2) have b: "map_of (parse_option_data sample_float raw_bad_iv) ''volume_24h'' = Some (VFloat (Fin 150000))"
    by fastforce
  from t f(3) l(3) have c: "map_of (parse_option_data sample_float raw_bad_iv) ''delta'' = None"
    "to_float sample_float (dict_get (parse_option_data sample_float raw_bad_iv) ''delta'' (VInt 0)) = Inr (Fin 0)"
    by fastforce+
  from t l(4) s(3) have e: "map_of (parse_option_data sample_float raw_bad_iv) ''timestamp'' = Some (VInt 0)"
    by simp
  from t d f a b c e show ?thesis by blast
qed

text \<open>
  A raw map with the symbol alone: the record holds the symbol alone, no \<open>mark_iv\<close>
  equal to 0.0 and no \<open>timestamp\<close> equal to 0.
\<close>

theorem parse_option_data_counterexample:
  "parse_option_data sample_float [(''symbol'', ''BTC-29DEC23-50000-C'')]
     = [(''symbol'', VStr ''BTC-29DEC23-50000-C'')]
   \<and> map_of (parse_option_data sample_float [(''symbol'', ''BTC-29DEC23-50000-C'')]) ''mark_iv''
     \<noteq> Some (VFloat (Fin 0))
   \<and> map_of (parse_option_data sample_float [(''symbol'', ''BTC-29DEC23-50000-C'')]) ''timestamp''
     \<noteq> Some (VInt 0)"
  by (simp add: parse_option_data_def parse_timestamp_def float_fields_def dict_get_def)

section \<open>The allow-list gate\<close>

text \<open>
  Claim C2, as the code has it. When the file is absent or its text is not JSON,
  \<open>is_allowed\<close> returns false without raising. When the file holds an object whose
  \<open>allowed\<close> member is absent or is a list of entries, each an object whose \<open>asset\<close> is
  absent or a string, \<open>is_allowed\<close> returns, without raising, whether some entry has the
  same asset up to case and exactly the same expiry.
\<close>

theorem is_allowed_iff:
  "is_allowed FileAbsent asset expiry = Inr False
   \<and> is_allowed Malformed asset expiry = Inr False
   \<and> (dict_get kvs ''allowed'' (JArr []) = JArr items \<and> list_all entry_ok items \<longrightarrow>
        is_allowed (Loaded (JObj kvs)) asset expiry
          = Inr (list_ex (entry_matches asset expiry) items))"
  by (simp add: is_allowed_def load_config_def empty_config_def json_get_def json_iter_def
      dict_get_def scan_allowed_ok)

text \<open>The theorem at a document with the one entry BTC, 29DEC23.\<close>

theorem is_allowed_iff_witness:
  "is_allowed FileAbsent ''btc'' ''29DEC23'' = Inr False
   \<and> is_allowed Malformed ''btc'' ''29DEC23'' = Inr False
   \<and> is_allowed doc_btc ''btc'' ''29DEC23'' = Inr True
   \<and> is_allowed doc_btc ''btc'' ''29dec23'' = Inr False
   \<and> is_allowed doc_btc ''eth'' ''29DEC23'' = Inr False"
proof -
  have g: "dict_get [(''allowed'', JArr [btc_entry])] ''allowed'' (JArr []) = JArr [btc_entry]"
    by (simp add: dict_get_def)
  have ok: "list_all entry_ok [btc_entry]"
    by (simp add: entry_ok_def btc_entry_def dict_get_def)
  have m: "list_ex (entry_matches ''btc'' ''29DEC23'') [btc_entry]"
    "\<not> list_ex (entry_matches ''btc'' ''29dec23'') [btc_entry]"
    "\<not> list_ex (entry_matches ''eth'' ''29DEC23'') [btc_entry]"
    by (simp_all add: entry_matches_def btc_entry_def dict_get_def upper_def upper_char_def)
  from is_allowed_iff [of "''btc''" "''29DEC23''" "[(''allowed'', JArr [btc_entry])]" "[btc_entry]"]
    is_allowed_iff [of "''btc''" "''29dec23''" "[(''allowed'', JArr [btc_entry])]" "[btc_entry]"]
    is_allowed_iff [of "''eth''" "''29DEC23''" "[(''allowed'', JArr [btc_entry])]" "[btc_entry]"]
    g ok m
  show ?thesis by (simp add: doc_btc_def)
qed

text \<open>
  A file holding the JSON list \<open>[]\<close>, and one whose \<open>allowed\<close> list holds the number 5
  before the entry BTC, 29DEC23: \<open>is_allowed\<close> raises \<open>AttributeError\<close> on both.
\<close>

theorem is_allowed_counterexample:
  "is_allowed (Loaded (JArr [])) ''BTC'' ''29DEC23'' = Inl AttributeError
   \<and> is_allowed doc_number_first ''BTC'' ''29DEC23'' = Inl AttributeError"
  by (simp add: is_allowed_def load_config_def json_get_def json_iter_def dict_get_def
      doc_number_first_def)

section \<open>The candidate list of the connection policy\<close>

text \<open>
  Claim C3, as the code has it. Whenever \<open>REDIS_PORT\<close> and \<open>REDIS_DB\<close> are unset or
  are integers, \<open>get_fallback_configs\<close> returns exactly three candidates, whatever the
  resolved primary port is: the primary (port from the environment, 6380 when unset or
  zero, socket timeout 5), the same host and db on port 6379, and the fixed local
  candidate on port 6379 with socket timeout 2. \<open>is_docker_setup\<close> looks at the class
  default, not at the resolved port.
\<close>

theorem fallback_configs_three:
  assumes "py_int (getenv_or env ''REDIS_PORT'' ''0'') = Some p"
    and "py_int (getenv_or env ''REDIS_DB'' ''0'') = Some n"
  shows "\<exists>primary standard.
     get_fallback_configs env = Inr [primary, standard, local_dev_config]
     \<and> map_of primary ''port'' = Some (CInt (if p = 0 then 6380 else p))
     \<and> map_of primary ''socket_timeout'' = Some (CInt 5)
     \<and> map_of standard ''port'' = Some (CInt 6379)
     \<and> map_of standard ''host'' = map_of primary ''host''
     \<and> map_of standard ''db'' = map_of primary ''db''
     \<and> map_of local_dev_config ''port'' = Some (CInt 6379)
     \<and> map_of local_dev_config ''socket_timeout'' = Some (CInt 2)"
proof -
  let ?base = "fold apply_env
          [(''host'', map_option CStr (env ''REDIS_HOST'')), (''port'', or_None p),
           (''db'', or_None n), (''password'', map_option CStr (env ''REDIS_PASSWORD''))]
          DEFAULT_SETTINGS"
  let ?standard = "dict_update ?base [(''port'', CInt 6379)]"
  have 1: "get_connection_params env [] = Inr ?base"
    using get_connection_params_Inr [OF assms, of "[]"] by (simp only: dict_update_Nil)
  have 2: "get_connection_params env [(''port'', CInt 6379)] = Inr ?standard"
    by (rule get_connection_params_Inr [OF assms])
  have l: "get_fallback_configs env = Inr [?base, ?standard, local_dev_config]"
    by (simp add: get_fallback_configs_def 1 2 is_docker_setup_True del: fold_simps)
  have a: "map_of ?base ''port'' = Some (CInt (if p = 0 then 6380 else p))"
    by (rule map_of_env_applied)
  have b: "map_of ?base ''socket_timeout'' = Some (CInt 5)"
    by (rule map_of_env_applied)
  have c: "map_of ?standard ''port'' = Some (CInt 6379)"
    by (simp only: map_of_dict_update_one fun_upd_same)
  have d: "map_of ?standard ''host'' = map_of ?base ''host''"
    by (simp only: map_of_dict_update_one) simp
  have e: "map_of ?standard ''db'' = map_of ?base ''db''"
    by (simp only: map_of_dict_update_one) simp
  have f: "map_of local_dev_config ''port'' = Some (CInt 6379)"
    "map_of local_dev_config ''socket_timeout'' = Some (CInt 2)"
    by (simp_all add: local_dev_config_def)
  from l a b c d e f show ?thesis by blast
qed

text \<open>The theorem at the empty environment.\<close>

theorem fallback_configs_three_witness:
  "\<exists>primary standard.
     get_fallback_configs env_unset = Inr [primary, standard, local_dev_config]
     \<and> map_of primary ''port'' = Some (CInt 6380)
     \<and> map_of primary ''socket_timeout'' = Some (CInt 5)
     \<and> map_of standard ''port'' = Some (CInt 6379)
     \<and> map_of standard ''host'' = map_of primary ''host''
     \<and> map_of standard ''db'' = map_of primary ''db''
     \<and> map_of local_dev_config ''port'' = Some (CInt 6379)
     \<and> map_of local_dev_config ''socket_timeout'' = Some (CInt 2)"
proof -
  have p: "py_int (getenv_or env_unset ''REDIS_PORT'' ''0'') = Some 0"
    by (simp add: env_unset_def getenv_or_def py_int_defs)
  have n: "py_int (getenv_or env_unset ''REDIS_DB'' ''0'') = Some 0"
    by (simp add: env_unset_def getenv_or_def py_int_defs)
  show ?thesis using fallback_configs_three [OF p n] by simp
qed

text \<open>
  With \<open>REDIS_PORT=7000\<close> the primary port is 7000, not 6380, and the list still has
  three candidates; with \<open>REDIS_PORT=abc\<close> no list is returned: \<open>int\<close> raises.
\<close>

theorem fallback_configs_counterexample:
  "(case get_fallback_configs env_port_7000 of
      Inl e \<Rightarrow> False
    | Inr configs \<Rightarrow>
        3 \<le> length configs \<and> map_of (hd configs) ''port'' = Some (CInt 7000))
   \<and> get_fallback_configs env_port_abc = Inl ValueError"
  by (simp add: env_port_7000_def env_port_abc_def get_fallback_configs_def
      get_connection_params_def env_overrides_def getenv_or_def or_None_def apply_env_def
      dict_update_def DEFAULT_SETTINGS_def is_docker_setup_def local_dev_config_def
      py_int_defs)

section \<open>Connecting with fallbacks\<close>

text \<open>
  Claim C4, as the code has it. When the fallback list can be built (\<open>REDIS_PORT\<close> and
  \<open>REDIS_DB\<close> unset or integers) and every attempt fails, for the active parameters
  and for each fallback, \<open>_connect\<close> returns \<open>False\<close> without raising, and so does
  \<open>reconnect\<close>; the handle and the active parameters are what they were before. A
  client that held no handle, as at construction, holds none afterwards and
  \<open>is_connected\<close> is false.
\<close>

theorem connect_all_fail:
  assumes "get_fallback_configs (environ w) = Inr configs"
    and "\<And>tr config. config \<in> set (connection_params d # configs)
           \<Longrightarrow> isl (redis_connect w tr config)"
  shows "\<exists>d'. connect w d = (Inr False, d') \<and> reconnect w d = (Inr False, d')
     \<and> redis_client d' = redis_client d \<and> connection_params d' = connection_params d
     \<and> (redis_client d = None \<longrightarrow> redis_client d' = None \<and> is_connected w d' = (False, d'))"
proof -
  have t: "try_connect w (connection_params d) d
      = (False, issue (OpConnect (connection_params d)) d)"
    by (rule try_connect_fail) (simp add: assms(2))
  from connect_fallbacks_fail [of configs w "issue (OpConnect (connection_params d)) d"] assms(2)
  obtain d' where f: "connect_fallbacks w configs (issue (OpConnect (connection_params d)) d)
      = (False, d')"
    and r: "redis_client d' = redis_client d" and p: "connection_params d' = connection_params d"
    by auto
  have c: "connect w d = (Inr False, d')"
    by (simp add: connect_def t assms(1) f)
  from c r p show ?thesis
    by (auto simp add: reconnect_def is_connected_None)
qed

text \<open>The theorem at a new client when nothing answers.\<close>

theorem connect_all_fail_witness:
  "fst (connect down_world fresh_db) = Inr False
   \<and> fst (reconnect down_world fresh_db) = Inr False
   \<and> redis_client (snd (connect down_world fresh_db)) = None
   \<and> fst (is_connected down_world (snd (connect down_world fresh_db))) = False"
proof -
  have e: "get_fallback_configs (environ down_world) =
     Inr [DEFAULT_SETTINGS, AList.update ''port'' (CInt 6379) DEFAULT_SETTINGS, local_dev_config]"
    by (simp add: down_world_def sample_world_def sample_fallback_configs)
  have f: "\<And>tr config. isl (redis_connect down_world tr config)"
    by (simp add: down_world_def)
  have n: "redis_client fresh_db = None" by (simp add: fresh_db_def)
  from connect_all_fail [of down_world _ fresh_db, OF e f] n show ?thesis
    by auto
qed

text \<open>
  A client that holds the handle 1 while every new connection is refused: \<open>_connect\<close>
  returns \<open>False\<close>, the client still holds the handle 1, and \<open>is_connected\<close> is true
  when that connection answers the ping.
\<close>

theorem connect_all_fail_counterexample:
  "fst (connect refusing_world sample_db) = Inr False
   \<and> redis_client (snd (connect refusing_world sample_db)) = Some 1
   \<and> fst (is_connected refusing_world (snd (connect refusing_world sample_db))) = True"
proof -
  have c: "connect refusing_world sample_db =
     (Inr False,
      sample_db\<lparr>ops := [OpConnect DEFAULT_SETTINGS, OpConnect DEFAULT_SETTINGS,
         OpConnect (AList.update ''port'' (CInt 6379) DEFAULT_SETTINGS),
         OpConnect local_dev_config]\<rparr>)"
    by (simp add: connect_def try_connect_def refusing_world_def sample_world_def
        sample_db_def sample_fallback_configs issue_def)
  show ?thesis
    by (simp add: c is_connected_def) (simp add: sample_db_def refusing_world_def sample_world_def)
qed

section \<open>Reading one option\<close>

text \<open>
  Claim C5. \<open>get_option\<close> returns the empty mapping when the client is not connected,
  when the store holds nothing under \<open>option:\<close> followed by the symbol, and when reading
  the hash raises any exception. The three results are the same value, and the function
  has no raising branch: an exception of the store is a value that it turns into the
  empty mapping.
\<close>

theorem get_option_empty:
  "(fst (is_connected w d) = False \<longrightarrow> fst (get_option w symbol d) = [])
   \<and> (is_connected w d = (True, d1) \<and> redis_client d1 = Some client
        \<and> redis_hgetall w (ops d1) client (option_key symbol) = Inr []
      \<longrightarrow> fst (get_option w symbol d) = [])
   \<and> (is_connected w d = (True, d1) \<and> redis_client d1 = Some client
        \<and> redis_hgetall w (ops d1) client (option_key symbol) = Inl e
      \<longrightarrow> fst (get_option w symbol d) = [])"
  by (cases "is_connected w d") (auto simp add: get_option_def)

text \<open>
  The theorem at a client with no handle, at a symbol the store does not hold, and at a
  store whose reads fail; a symbol the store holds gives a record that is not empty.
\<close>

theorem get_option_empty_witness:
  "fst (is_connected sample_world fresh_db) = False
   \<and> fst (get_option sample_world ''BTC-29DEC23-50000-C'' fresh_db) = []
   \<and> fst (is_connected sample_world sample_db) = True
   \<and> fst (get_option sample_world ''ETH-29DEC23-2000-C'' sample_db) = []
   \<and> fst (get_option failing_world ''BTC-29DEC23-50000-C'' sample_db) = []
   \<and> fst (get_option sample_world ''BTC-29DEC23-50000-C'' sample_db) \<noteq> []"
proof -
  have a: "fst (is_connected sample_world fresh_db) = False"
    by (simp add: is_connected_def fresh_db_def)
  have b: "is_connected sample_world sample_db = (True, issue (OpPing 1) sample_db)
      \<and> redis_client (issue (OpPing 1) sample_db) = Some 1
      \<and> redis_hgetall sample_world (ops (issue (OpPing 1) sample_db)) 1
           (option_key ''ETH-29DEC23-2000-C'') = Inr []"
    by (simp add: is_connected_def sample_db_def sample_world_def sample_store_def option_key_def)
  have c: "is_connected failing_world sample_db = (True, issue (OpPing 1) sample_db)
      \<and> redis_client (issue (OpPing 1) sample_db) = Some 1
      \<and> redis_hgetall failing_world (ops (issue (OpPing 1) sample_db)) 1
           (option_key ''BTC-29DEC23-50000-C'') = Inl RedisError"
    by (simp add: is_connected_def sample_db_def failing_world_def sample_world_def)
  have d: "fst (get_option sample_world ''BTC-29DEC23-50000-C'' sample_db) \<noteq> []"
    by (simp add: get_option_def is_connected_def sample_db_def sample_world_def
        sample_store_def parse_option_data_nonempty option_key_def)
  note t = get_option_empty
  from t [of sample_world fresh_db "''BTC-29DEC23-50000-C''", THEN conjunct1] a
  have a': "fst (get_option sample_world ''BTC-29DEC23-50000-C'' fresh_db) = []" by blast
  from t [of sample_world sample_db "''ETH-29DEC23-2000-C''" "issue (OpPing 1) sample_db" 1,
      THEN conjunct2, THEN conjunct1] b
  have b': "fst (get_option sample_world ''ETH-29DEC23-2000-C'' sample_db) = []" by blast
  from t [of failing_world sample_db "''BTC-29DEC23-50000-C''" "issue (OpPing 1) sample_db" 1
      RedisError, THEN conjunct2, THEN conjunct2] c
  have c': "fst (get_option failing_world ''BTC-29DEC23-50000-C'' sample_db) = []" by blast
  from a a' b b' c' d show ?thesis by simp
qed

section \<open>The gate comes before the store\<close>

text \<open>
  Claim C6, as the code has it. When \<open>is_allowed\<close> returns false, \<open>get_ticker\<close> raises
  the 404 and the operations sent to the store are those sent before the call: no
  connection is opened and nothing is read. That is so when the file is absent or is not
  JSON, and when the document has the shape of an allow-list and no entry of it matches
  the asset and the expiry, an empty list among them. When \<open>is_allowed\<close> raises, as it
  does on JSON of another shape, the exception leaves the handler, which is called
  outside the \<open>try\<close>: the outcome is not the 404, and still nothing is sent to the store.
\<close>

theorem ticker_not_allowed_no_store_operation:
  "(is_allowed (config_file w) asset expiry = Inr False \<longrightarrow>
      get_ticker w asset expiry tr = (Inl (HTTPException 404), tr))
   \<and> (config_file w = FileAbsent \<or> config_file w = Malformed
       \<or> (\<exists>kvs items. config_file w = Loaded (JObj kvs)
             \<and> dict_get kvs ''allowed'' (JArr []) = JArr items \<and> list_all entry_ok items
             \<and> \<not> list_ex (entry_matches asset expiry) items)
      \<longrightarrow> get_ticker w asset expiry tr = (Inl (HTTPException 404), tr))
   \<and> (is_allowed (config_file w) asset expiry = Inl e \<longrightarrow>
      get_ticker w asset expiry tr = (Inl e, tr))"
proof (intro conjI impI)
  assume "is_allowed (config_file w) asset expiry = Inr False"
  then show "get_ticker w asset expiry tr = (Inl (HTTPException 404), tr)"
    by (simp add: get_ticker_def)
next
  assume "config_file w = FileAbsent \<or> config_file w = Malformed
       \<or> (\<exists>kvs items. config_file w = Loaded (JObj kvs)
             \<and> dict_get kvs ''allowed'' (JArr []) = JArr items \<and> list_all entry_ok items
             \<and> \<not> list_ex (entry_matches asset expiry) items)"
  then have "is_allowed (config_file w) asset expiry = Inr False"
    using is_allowed_no_document [of asset expiry] is_allowed_shape [of _ _ asset expiry]
    by auto
  then show "get_ticker w asset expiry tr = (Inl (HTTPException 404), tr)"
    by (simp add: get_ticker_def)
next
  assume "is_allowed (config_file w) asset expiry = Inl e"
  then show "get_ticker w asset expiry tr = (Inl e, tr)"
    by (simp add: get_ticker_def)
qed

text \<open>
  The theorem at the example store behind an empty allow-list, at ETH behind the list
  that allows BTC alone, and at the list that holds a number; the allowed pair does
  reach the store.
\<close>

theorem ticker_not_allowed_no_store_operation_witness:
  "get_ticker empty_list_world ''BTC'' ''29DEC23'' [] = (Inl (HTTPException 404), [])
   \<and> get_ticker sample_world ''ETH'' ''29DEC23'' [] = (Inl (HTTPException 404), [])
   \<and> get_ticker number_first_world ''ETH'' ''29DEC23'' [] = (Inl AttributeError, [])
   \<and> snd (get_ticker sample_world ''BTC'' ''29DEC23'' []) \<noteq> []"
proof -
  have a: "\<exists>kvs items. config_file empty_list_world = Loaded (JObj kvs)
             \<and> dict_get kvs ''allowed'' (JArr []) = JArr items \<and> list_all entry_ok items
             \<and> \<not> list_ex (entry_matches ''BTC'' ''29DEC23'') items"
    by (simp add: empty_list_world_def dict_get_def)
  have b: "is_allowed (config_file sample_world) ''ETH'' ''29DEC23'' = Inr False"
    by (simp add: sample_world_def doc_btc_def btc_entry_def is_allowed_def load_config_def
      json_get_def json_iter_def json_upper_def dict_get_def upper_def upper_char_def)
  have c: "is_allowed (config_file number_first_world) ''ETH'' ''29DEC23'' = Inl AttributeError"
    by (simp add: number_first_world_def sample_world_def doc_number_first_def
      is_allowed_def load_config_def json_get_def json_iter_def dict_get_def)
  note t = ticker_not_allowed_no_store_operation
  from t [of empty_list_world "''BTC''" "''29DEC23''" "[]", THEN conjunct2, THEN conjunct1] a
  have 1: "get_ticker empty_list_world ''BTC'' ''29DEC23'' [] = (Inl (HTTPException 404), [])"
    by blast
  from t [of sample_world "''ETH''" "''29DEC23''" "[]", THEN conjunct1] b
  have 2: "get_ticker sample_world ''ETH'' ''29DEC23'' [] = (Inl (HTTPException 404), [])"
    by blast
  from t [of number_first_world "''ETH''" "''29DEC23''" "[]" AttributeError,
      THEN conjunct2, THEN conjunct2] c
  have 3: "get_ticker number_first_world ''ETH'' ''29DEC23'' [] = (Inl AttributeError, [])"
    by blast
  have 4: "snd (get_ticker sample_world ''BTC'' ''29DEC23'' []) \<noteq> []"
    by (simp add: sample_ticker)
  from 1 2 3 4 show ?thesis by blast
qed

text \<open>
  The allow-list that holds the number 5 before the entry BTC, 29DEC23, asked for ETH,
  29DEC23: no entry of the list matches ETH, and the handler does not raise the 404, it
  fails with the \<open>AttributeError\<close> of \<open>is_allowed\<close>.
\<close>

theorem ticker_not_allowed_counterexample:
  "\<not> list_ex (entry_matches ''ETH'' ''29DEC23'') [JInt 5, btc_entry]
   \<and> config_file number_first_world = Loaded (JObj [(''allowed'', JArr [JInt 5, btc_entry])])
   \<and> fst (get_ticker number_first_world ''ETH'' ''29DEC23'' []) = Inl AttributeError
   \<and> fst (get_ticker number_first_world ''ETH'' ''29DEC23'' []) \<noteq> Inl (HTTPException 404)"
  by (simp add: number_first_ticker entry_matches_def btc_entry_def dict_get_def upper_def
      upper_char_def)
     (simp add: number_first_world_def doc_number_first_def btc_entry_def)

section \<open>Options of one expiry\<close>

text \<open>
  Claim C7. Every record that \<open>get_options_by_expiry\<close> returns comes from a listed
  symbol that contains \<open>-\<close>, the expiry, \<open>-\<close> as a substring; and every hash that the
  call reads from the store is read under the key of such a symbol.
\<close>

theorem expiry_only_matching_symbols:
  "get_options_by_expiry w expiry asset d = (options, d') \<longrightarrow>
     (\<forall>r \<in> set options.
        \<exists>symbol \<in> set (fst (get_all_symbols w asset d)).
          sublist (''-'' @ expiry @ ''-'') symbol \<and> mapped_from w symbol r)
     \<and> (\<exists>new. ops d' = ops d @ new
          \<and> (\<forall>client key. OpHgetall client key \<in> set new \<longrightarrow>
                (\<exists>symbol \<in> set (fst (get_all_symbols w asset d)).
                   sublist (''-'' @ expiry @ ''-'') symbol \<and> key = option_key symbol)))"
proof
  assume g: "get_options_by_expiry w expiry asset d = (options, d')"
  let ?symbols = "fst (get_all_symbols w asset d)"
  let ?d1 = "snd (get_all_symbols w asset d)"
  from g have f: "fetch_expiry w expiry ?symbols [] ?d1 = (options, d')"
    by (simp add: get_options_by_expiry_def split_beta)
  note inv = fetch_expiry_inv [OF f]
  from get_all_symbols_ops [of w asset d] obtain new1 where
    o1: "ops ?d1 = ops d @ new1" and k1: "\<forall>client key. OpHgetall client key \<notin> set new1"
    by blast
  from inv obtain new2 where o2: "ops d' = ops ?d1 @ new2"
    and k2: "\<forall>client key. OpHgetall client key \<in> set new2 \<longrightarrow>
                (\<exists>symbol \<in> set ?symbols.
                   sublist (''-'' @ expiry @ ''-'') symbol \<and> key = option_key symbol)"
    by blast
  have a: "\<forall>r \<in> set options.
        \<exists>symbol \<in> set ?symbols. sublist (''-'' @ expiry @ ''-'') symbol \<and> mapped_from w symbol r"
    using inv by simp
  have b: "ops d' = ops d @ (new1 @ new2)" using o1 o2 by simp
  have c: "\<forall>client key. OpHgetall client key \<in> set (new1 @ new2) \<longrightarrow>
                (\<exists>symbol \<in> set ?symbols.
                   sublist (''-'' @ expiry @ ''-'') symbol \<and> key = option_key symbol)"
    using k1 k2 by auto
  from a b c show "(\<forall>r \<in> set options.
        \<exists>symbol \<in> set ?symbols. sublist (''-'' @ expiry @ ''-'') symbol \<and> mapped_from w symbol r)
     \<and> (\<exists>new. ops d' = ops d @ new
          \<and> (\<forall>client key. OpHgetall client key \<in> set new \<longrightarrow>
                (\<exists>symbol \<in> set ?symbols.
                   sublist (''-'' @ expiry @ ''-'') symbol \<and> key = option_key symbol)))"
    by blast
qed

text \<open>
  The theorem at the example store for 29DEC23: the two options of that expiry are
  returned, and the hash of the option that expires 30MAR24 is not read.
\<close>

theorem expiry_only_matching_symbols_witness:
  "fst (get_options_by_expiry sample_world ''29DEC23'' (Some ''BTC'') sample_db) =
     map (\<lambda>s. parse_option_data sample_float (sample_store (option_key s)))
       [''BTC-29DEC23-50000-C'', ''BTC-29DEC23-60000-P'']
   \<and> OpHgetall 1 (option_key ''BTC-30MAR24-50000-C'')
       \<notin> set (ops (snd (get_options_by_expiry sample_world ''29DEC23'' (Some ''BTC'') sample_db)))"
proof -
  let ?g = "get_options_by_expiry sample_world ''29DEC23'' (Some ''BTC'') sample_db"
  have g: "?g = (fst ?g, snd ?g)" by simp
  from expiry_only_matching_symbols
    [of sample_world "''29DEC23''" "Some ''BTC''" sample_db "fst ?g" "snd ?g"] g
  obtain new where o: "ops (snd ?g) = ops sample_db @ new"
    and k: "\<forall>client key. OpHgetall client key \<in> set new \<longrightarrow>
                (\<exists>symbol \<in> set (fst (get_all_symbols sample_world (Some ''BTC'') sample_db)).
                   sublist (''-'' @ ''29DEC23'' @ ''-'') symbol \<and> key = option_key symbol)"
    by blast
  have n: "\<not> sublist (''-'' @ ''29DEC23'' @ ''-'') ''BTC-30MAR24-50000-C''"
    by (simp add: sublist_Cons_right)
  have 2: "OpHgetall 1 (option_key ''BTC-30MAR24-50000-C'') \<notin> set (ops (snd ?g))"
  proof
    assume "OpHgetall 1 (option_key ''BTC-30MAR24-50000-C'') \<in> set (ops (snd ?g))"
    with o have "OpHgetall 1 (option_key ''BTC-30MAR24-50000-C'') \<in> set new"
      by (simp add: sample_db_def)
    with k obtain symbol where "sublist (''-'' @ ''29DEC23'' @ ''-'') symbol"
      and "option_key ''BTC-30MAR24-50000-C'' = option_key symbol"
      by blast
    with n show False by (simp add: option_key_inject)
  qed
  have 1: "fst ?g =
     map (\<lambda>s. parse_option_data sample_float (sample_store (option_key s)))
       [''BTC-29DEC23-50000-C'', ''BTC-29DEC23-60000-P'']"
    using get_options_by_expiry_stable [of sample_db 1 sample_world sample_store "''29DEC23''"
        "Some ''BTC''", OF sample_world_stable]
    by (simp only: sample_symbols sample_expiry_filter) (simp add: sample_world_def)
  from 1 2 show ?thesis by blast
qed

section \<open>Options with a high volume\<close>

text \<open>
  Claim C8. \<open>get_high_volume_options\<close> returns, without raising, the records of
  \<open>get_options_by_asset\<close> when an asset is given, of \<open>get_all_options\<close> otherwise,
  whose \<open>volume_24h\<close> (0 when absent) is at least the bound, in their order. No returned
  record has a volume strictly less than the bound.
\<close>

theorem high_volume_threshold:
  "\<exists>kept. fst (get_high_volume_options w min_volume asset d) = Inr kept
     \<and> (\<forall>r \<in> set kept.
           \<exists>v. to_float (float_of w) (dict_get r ''volume_24h'' (VInt 0)) = Inr v
             \<and> float_ge v min_volume \<and> \<not> float_lt v min_volume)
     \<and> (asset = None \<longrightarrow>
           kept = filter (volume_at_least w min_volume) (fst (get_all_options w d)))
     \<and> (\<forall>a. asset = Some a \<longrightarrow>
           kept = filter (volume_at_least w min_volume) (fst (get_options_by_asset w a d)))"
proof -
  let ?source = "case asset of
               None \<Rightarrow> fst (get_all_options w d)
             | Some a \<Rightarrow> fst (get_options_by_asset w a d)"
  let ?kept = "filter (volume_at_least w min_volume) ?source"
  have 1: "fst (get_high_volume_options w min_volume asset d) = Inr ?kept"
    by (rule get_high_volume_options_eq)
  have 2: "\<forall>r \<in> set ?kept.
           \<exists>v. to_float (float_of w) (dict_get r ''volume_24h'' (VInt 0)) = Inr v
             \<and> float_ge v min_volume \<and> \<not> float_lt v min_volume"
  proof
    fix r assume "r \<in> set ?kept"
    then have "volume_at_least w min_volume r" by simp
    then show "\<exists>v. to_float (float_of w) (dict_get r ''volume_24h'' (VInt 0)) = Inr v
             \<and> float_ge v min_volume \<and> \<not> float_lt v min_volume"
      by (auto simp add: volume_at_least_def float_ge_not_lt split: sum.splits)
  qed
  have 3: "asset = None \<longrightarrow> ?kept = filter (volume_at_least w min_volume) (fst (get_all_options w d))"
    by simp
  have 4: "\<forall>a. asset = Some a \<longrightarrow>
      ?kept = filter (volume_at_least w min_volume) (fst (get_options_by_asset w a d))"
    by simp
  from 1 2 3 4 show ?thesis by blast
qed

text \<open>
  The theorem at the example store with the default bound 100000: of the volumes
  150000, 500 and 200000 the first and the last are kept.
\<close>

theorem high_volume_threshold_witness:
  "fst (get_high_volume_options sample_world default_min_volume (Some ''BTC'') sample_db) =
     Inr (map (\<lambda>s. parse_option_data sample_float (sample_store (option_key s)))
            [''BTC-29DEC23-50000-C'', ''BTC-30MAR24-50000-C''])"
proof -
  from high_volume_threshold [of sample_world default_min_volume "Some ''BTC''" sample_db]
  obtain kept where
    k: "fst (get_high_volume_options sample_world default_min_volume (Some ''BTC'') sample_db)
        = Inr kept"
    and f: "kept = filter (volume_at_least sample_world default_min_volume)
        (fst (get_options_by_asset sample_world ''BTC'' sample_db))"
    by blast
  have s: "fst (get_options_by_asset sample_world ''BTC'' sample_db) =
       map (\<lambda>s. parse_option_data sample_float (sample_store (option_key s)))
         [''BTC-29DEC23-50000-C'', ''BTC-29DEC23-60000-P'', ''BTC-30MAR24-50000-C'']"
    using get_options_by_asset_stable(1) [of sample_db 1 sample_world sample_store "''BTC''",
        OF sample_world_stable]
    by (simp only: sample_symbols sample_store_filter) (simp add: sample_world_def)
  have "kept = map (\<lambda>s. parse_option_data sample_float (sample_store (option_key s)))
            [''BTC-29DEC23-50000-C'', ''BTC-30MAR24-50000-C'']"
    by (simp add: f s sample_volumes)
  with k show ?thesis by simp
qed

section \<open>No symbol with a hash is skipped\<close>

text \<open>
  Claim C9. The record of a raw map that is not empty holds the key \<open>symbol\<close>, with the
  empty string when the raw map has none, and is not empty. So \<open>get_option\<close> returns a
  record that is not empty exactly when the client holds a handle, the ping succeeds
  and the store returns a hash that is not empty. Whatever the store answers,
  \<open>get_options_by_asset\<close> and \<open>get_all_options\<close> return, in the order of the listing,
  the mapped hash of every listed symbol whose hash, fetched at its turn, is not empty: a
  symbol is dropped only when, at its turn, the client is not connected, the read fails
  or the hash is empty, and the loop goes on with the next symbol. When the store answers
  every ping and every read from the same contents, that is the mapped hash of every
  listed symbol whose stored hash is not empty.
\<close>

theorem nonempty_hash_never_skipped:
  "(data \<noteq> [] \<longrightarrow>
      map_of (parse_option_data pf data) ''symbol'' = Some (VStr (dict_get data ''symbol'' []))
      \<and> parse_option_data pf data \<noteq> [])
   \<and> (fst (get_option w symbol d) \<noteq> [] \<longleftrightarrow>
        (\<exists>client hash. redis_client d = Some client \<and> redis_ping w (ops d) client
           \<and> redis_hgetall w (ops d @ [OpPing client]) client (option_key symbol) = Inr hash
           \<and> hash \<noteq> []))
   \<and> (redis_client d = Some client \<and> (\<forall>tr. redis_ping w tr client)
        \<and> (\<forall>tr key. redis_hgetall w tr client key = Inr (store key)) \<longrightarrow>
        fst (get_options_by_asset w asset d) =
          map (\<lambda>s. parse_option_data (float_of w) (store (option_key s)))
            (filter (\<lambda>s. store (option_key s) \<noteq> []) (fst (get_all_symbols w (Some asset) d)))
        \<and> fst (get_all_options w d) =
          map (\<lambda>s. parse_option_data (float_of w) (store (option_key s)))
            (filter (\<lambda>s. store (option_key s) \<noteq> []) (fst (get_all_symbols w None d))))
   \<and> fst (get_options_by_asset w asset d) =
        map (\<lambda>(s, st). parse_option_data (float_of w) (fetched_hash w st s))
          (filter (\<lambda>(s, st). fetched_hash w st s \<noteq> [])
             (zip (fst (get_all_symbols w (Some asset) d))
                  (visit_states w (fst (get_all_symbols w (Some asset) d))
                     (snd (get_all_symbols w (Some asset) d)))))
   \<and> fst (get_all_options w d) =
        map (\<lambda>(s, st). parse_option_data (float_of w) (fetched_hash w st s))
          (filter (\<lambda>(s, st). fetched_hash w st s \<noteq> [])
             (zip (fst (get_all_symbols w None d))
                  (visit_states w (fst (get_all_symbols w None d))
                     (snd (get_all_symbols w None d)))))"
proof (intro conjI impI)
  assume d: "data \<noteq> []"
  show "map_of (parse_option_data pf data) ''symbol'' = Some (VStr (dict_get data ''symbol'' []))"
    using symbol_not_float_field by (simp add: map_of_parse_option_data [OF d])
  show "parse_option_data pf data \<noteq> []" using d by (rule parse_option_data_nonempty)
next
  show "fst (get_option w symbol d) \<noteq> [] \<longleftrightarrow>
        (\<exists>client hash. redis_client d = Some client \<and> redis_ping w (ops d) client
           \<and> redis_hgetall w (ops d @ [OpPing client]) client (option_key symbol) = Inr hash
           \<and> hash \<noteq> [])"
    by (rule get_option_nonempty_iff)
next
  assume a: "redis_client d = Some client \<and> (\<forall>tr. redis_ping w tr client)
        \<and> (\<forall>tr key. redis_hgetall w tr client key = Inr (store key))"
  then show "fst (get_options_by_asset w asset d) =
          map (\<lambda>s. parse_option_data (float_of w) (store (option_key s)))
            (filter (\<lambda>s. store (option_key s) \<noteq> []) (fst (get_all_symbols w (Some asset) d)))"
    by (intro get_options_by_asset_stable(1) [of d client w store]) simp_all
  from a show "fst (get_all_options w d) =
          map (\<lambda>s. parse_option_data (float_of w) (store (option_key s)))
            (filter (\<lambda>s. store (option_key s) \<noteq> []) (fst (get_all_symbols w None d)))"
    by (intro get_options_by_asset_stable(2) [of d client w store]) simp_all
next
  show "fst (get_options_by_asset w asset d) =
        map (\<lambda>(s, st). parse_option_data (float_of w) (fetched_hash w st s))
          (filter (\<lambda>(s, st). fetched_hash w st s \<noteq> [])
             (zip (fst (get_all_symbols w (Some asset) d))
                  (visit_states w (fst (get_all_symbols w (Some asset) d))
                     (snd (get_all_symbols w (Some asset) d)))))"
    by (rule get_options_general)
next
  show "fst (get_all_options w d) =
        map (\<lambda>(s, st). parse_option_data (float_of w) (fetched_hash w st s))
          (filter (\<lambda>(s, st). fetched_hash w st s \<noteq> [])
             (zip (fst (get_all_symbols w None d))
                  (visit_states w (fst (get_all_symbols w None d))
                     (snd (get_all_symbols w None d)))))"
    by (rule get_options_general)
qed

text \<open>
  The theorem at a raw map without a symbol, at the example store, whose listing names
  four keys, one of them with no hash, and at the same store when the ping of the first
  turn is lost: the first symbol is dropped and the two after it are returned.
\<close>

theorem nonempty_hash_never_skipped_witness:
  "map_of (parse_option_data sample_float [(''volume_24h'', ''150000'')]) ''symbol''
     = Some (VStr [])
   \<and> parse_option_data sample_float [(''volume_24h'', ''150000'')] \<noteq> []
   \<and> fst (get_option sample_world ''BTC-29DEC23-50000-C'' sample_db) \<noteq> []
   \<and> fst (get_options_by_asset sample_world ''BTC'' sample_db) =
       map (\<lambda>s. parse_option_data sample_float (sample_store (option_key s)))
         [''BTC-29DEC23-50000-C'', ''BTC-29DEC23-60000-P'', ''BTC-30MAR24-50000-C'']
   \<and> fst (get_all_options sample_world sample_db) =
       map (\<lambda>s. parse_option_data sample_float (sample_store (option_key s)))
         [''BTC-29DEC23-50000-C'', ''BTC-29DEC23-60000-P'', ''BTC-30MAR24-50000-C'']
   \<and> fst (get_options_by_asset flaky_world ''BTC'' sample_db) =
       map (\<lambda>s. parse_option_data sample_float (sample_store (option_key s)))
         [''BTC-29DEC23-60000-P'', ''BTC-30MAR24-50000-C'']"
proof -
  note t = nonempty_hash_never_skipped
    [of "[(''volume_24h'', ''150000'')]" sample_float sample_world "''BTC-29DEC23-50000-C''"
        sample_db 1 sample_store "''BTC''"]
  note u = nonempty_hash_never_skipped
    [of "[(''volume_24h'', ''150000'')]" sample_float flaky_world "''BTC-29DEC23-50000-C''"
        sample_db 1 sample_store "''BTC''"]
  have f: "float_of sample_world = sample_float" by (simp add: sample_world_def)
  have h: "\<exists>client hash. redis_client sample_db = Some client
      \<and> redis_ping sample_world (ops sample_db) client
      \<and> redis_hgetall sample_world (ops sample_db @ [OpPing client]) client
           (option_key ''BTC-29DEC23-50000-C'') = Inr hash
      \<and> hash \<noteq> []"
    by (simp add: sample_world_def sample_db_def sample_store_def option_key_def)
  from t have 1: "map_of (parse_option_data sample_float [(''volume_24h'', ''150000'')]) ''symbol''
       = Some (VStr [])
     \<and> parse_option_data sample_float [(''volume_24h'', ''150000'')] \<noteq> []"
    by (simp add: dict_get_def)
  from t h have 2: "fst (get_option sample_world ''BTC-29DEC23-50000-C'' sample_db) \<noteq> []"
    by blast
  from t sample_world_stable
  have 3: "fst (get_options_by_asset sample_world ''BTC'' sample_db) =
          map (\<lambda>s. parse_option_data (float_of sample_world) (sample_store (option_key s)))
            (filter (\<lambda>s. sample_store (option_key s) \<noteq> [])
               (fst (get_all_symbols sample_world (Some ''BTC'') sample_db)))
        \<and> fst (get_all_options sample_world sample_db) =
          map (\<lambda>s. parse_option_data (float_of sample_world) (sample_store (option_key s)))
            (filter (\<lambda>s. sample_store (option_key s) \<noteq> [])
               (fst (get_all_symbols sample_world None sample_db)))"
    by blast
  have 4: "fst (get_options_by_asset flaky_world ''BTC'' sample_db) =
       map (\<lambda>s. parse_option_data sample_float (sample_store (option_key s)))
         [''BTC-29DEC23-60000-P'', ''BTC-30MAR24-50000-C'']"
    by (rule flaky_by_asset_from)
       (rule u [THEN conjunct2, THEN conjunct2, THEN conjunct2, THEN conjunct1])
  from 1 2 3 4 show ?thesis
    by (simp only: sample_symbols sample_store_filter f simp_thms)
qed

section \<open>The symbols of the key listing\<close>

text \<open>
  Claim C10. When the client is connected and the listing succeeds, \<open>get_all_symbols\<close>
  returns each key with its occurrences of \<open>option:\<close> removed. For a key
  \<open>option:\<close> followed by \<open>s\<close> that is \<open>s\<close> with its own occurrences removed too: the
  leftmost occurrence in \<open>s\<close> goes, and so on in the rest. The entry is \<open>s\<close> exactly when
  \<open>option:\<close> does not occur in \<open>s\<close>.
\<close>

theorem get_all_symbols_replace:
  "(is_connected w d = (True, d1) \<and> redis_client d1 = Some client
      \<and> redis_keys w (ops d1) client (key_pattern asset) = Inr keys \<longrightarrow>
        fst (get_all_symbols w asset d) = map (replace ''option:'' []) keys)
   \<and> replace ''option:'' [] (''option:'' @ s) = replace ''option:'' [] s
   \<and> (\<not> sublist ''option:'' (a @ ''option'') \<longrightarrow>
        replace ''option:'' [] (a @ ''option:'' @ b) = a @ replace ''option:'' [] b)
   \<and> (replace ''option:'' [] s = s \<longleftrightarrow> \<not> sublist ''option:'' s)"
proof (intro conjI impI)
  assume "is_connected w d = (True, d1) \<and> redis_client d1 = Some client
      \<and> redis_keys w (ops d1) client (key_pattern asset) = Inr keys"
  then show "fst (get_all_symbols w asset d) = map (replace ''option:'' []) keys"
    by (simp add: get_all_symbols_def)
next
  have "replace ''option:'' [] ([] @ ''option:'' @ s) = [] @ [] @ replace ''option:'' [] s"
    by (rule replace_leftmost) (simp_all add: sublist_Cons_right)
  then show "replace ''option:'' [] (''option:'' @ s) = replace ''option:'' [] s"
    by simp
next
  assume n: "\<not> sublist ''option:'' (a @ ''option'')"
  have "replace ''option:'' [] (a @ ''option:'' @ b) = a @ [] @ replace ''option:'' [] b"
    by (rule replace_leftmost) (use n in simp_all)
  then show "replace ''option:'' [] (a @ ''option:'' @ b) = a @ replace ''option:'' [] b"
    by simp
next
  show "replace ''option:'' [] s = s \<longleftrightarrow> \<not> sublist ''option:'' s"
    by (rule replace_identity_iff) simp
qed

text \<open>The theorem at a listing with the key \<open>option:X-option:Y\<close>.\<close>

theorem get_all_symbols_replace_witness:
  "fst (get_all_symbols odd_world None sample_db) = [''BTC-29DEC23-50000-C'', ''X-Y'']
   \<and> replace ''option:'' [] (''option:'' @ ''X-option:Y'') = ''X-Y''
   \<and> replace ''option:'' [] ''X-option:Y'' \<noteq> ''X-option:Y''"
proof -
  have c: "is_connected odd_world sample_db = (True, issue (OpPing 1) sample_db)
      \<and> redis_client (issue (OpPing 1) sample_db) = Some 1
      \<and> redis_keys odd_world (ops (issue (OpPing 1) sample_db)) 1 (key_pattern None)
          = Inr [''option:BTC-29DEC23-50000-C'', ''option:X-option:Y'']"
    by (simp add: is_connected_def sample_db_def odd_world_def issue_def)
  have n: "\<not> sublist ''option:'' (''X-'' @ ''option'')"
    "\<not> sublist ''option:'' ''Y''" "\<not> sublist ''option:'' ''BTC-29DEC23-50000-C''"
    "sublist ''option:'' ''X-option:Y''"
    by (simp_all add: sublist_Cons_right)
  note t = get_all_symbols_replace
  have r1: "replace ''option:'' [] ''Y'' = ''Y''"
    using t [where s = "''Y''", THEN conjunct2, THEN conjunct2, THEN conjunct2] n by blast
  have r2: "replace ''option:'' [] ''BTC-29DEC23-50000-C'' = ''BTC-29DEC23-50000-C''"
    using t [where s = "''BTC-29DEC23-50000-C''", THEN conjunct2, THEN conjunct2, THEN conjunct2] n
    by blast
  have r3: "replace ''option:'' [] (''X-'' @ ''option:'' @ ''Y'') = ''X-'' @ replace ''option:'' [] ''Y''"
    using t [where a = "''X-''" and b = "''Y''", THEN conjunct2, THEN conjunct2, THEN conjunct1] n
    by blast
  have r4: "replace ''option:'' [] (''option:'' @ ''X-option:Y'') = replace ''option:'' [] ''X-option:Y''"
    "replace ''option:'' [] (''option:'' @ ''BTC-29DEC23-50000-C'') = replace ''option:'' [] ''BTC-29DEC23-50000-C''"
    using t [where s = "''X-option:Y''", THEN conjunct2, THEN conjunct1]
      t [where s = "''BTC-29DEC23-50000-C''", THEN conjunct2, THEN conjunct1]
    by blast+
  have r5: "replace ''option:'' [] ''X-option:Y'' \<noteq> ''X-option:Y''"
    using t [where s = "''X-option:Y''", THEN conjunct2, THEN conjunct2, THEN conjunct2] n by blast
  have l: "fst (get_all_symbols odd_world None sample_db)
      = map (replace ''option:'' []) [''option:BTC-29DEC23-50000-C'', ''option:X-option:Y'']"
    using t [where w = odd_world and d = sample_db and ?d1.0 = "issue (OpPing 1) sample_db"
        and client = 1 and asset = None
        and keys = "[''option:BTC-29DEC23-50000-C'', ''option:X-option:Y'']", THEN conjunct1] c
    by blast
  from r1 r2 r3 r4 r5 l show ?thesis by simp
qed

end
